theory Spec2Isabelle
  imports Main "HOL-Library.Sublist" "HOL-Library.AList"
begin

section \<open>Python values and string primitives\<close>

text \<open>
  The cells of a contact record are the values a pandas row can hold: a missing value
  (\<open>NaN\<close>), a string or an integer; \<open>PNone\<close> is Python's \<open>None\<close>, the default of the
  optional arguments. Floats other than \<open>NaN\<close> are outside the model. Strings are
  \<open>char list\<close>. \<open>py_lower\<close> and \<open>py_split\<close> below are the ASCII part of Python's
  \<open>str.lower\<close> and \<open>str.split\<close> and leave every other character alone; \<open>isalnum\<close> is
  the class \<open>[a-zA-Z0-9]\<close> of the patterns and of the safe set of \<open>urllib.parse.quote\<close>.
\<close>

datatype pyval = PNone | NaN | Str string | Num int

datatype exn = KeyError string | AttributeError | TypeError

text \<open>\<open>pd.isna(v)\<close>\<close>

fun isna :: "pyval \<Rightarrow> bool" where
  "isna PNone = True"
| "isna NaN = True"
| "isna (Str s) = False"
| "isna (Num n) = False"

text \<open>Truth value of \<open>v\<close> in a condition: \<open>None\<close>, \<open>''\<close> and \<open>0\<close> are false, \<open>nan\<close> is true.\<close>

fun truthy :: "pyval \<Rightarrow> bool" where
  "truthy PNone = False"
| "truthy NaN = True"
| "truthy (Str s) = (s \<noteq> [])"
| "truthy (Num n) = (n \<noteq> 0)"

fun str_of_nat :: "nat \<Rightarrow> string" where
  "str_of_nat n =
     (if n < 10 then [char_of (48 + n)]
      else str_of_nat (n div 10) @ [char_of (48 + n mod 10)])"

definition str_of_int :: "int \<Rightarrow> string" where
  "str_of_int i = (if i < 0 then ''-'' @ str_of_nat (nat (- i)) else str_of_nat (nat i))"

definition str_of_bool :: "bool \<Rightarrow> string" where
  "str_of_bool b = (if b then ''True'' else ''False'')"

text \<open>\<open>str(v)\<close>, which is also what an f-string writes for \<open>{v}\<close>.\<close>

fun py_str :: "pyval \<Rightarrow> string" where
  "py_str PNone = ''None''"
| "py_str NaN = ''nan''"
| "py_str (Str s) = s"
| "py_str (Num n) = str_of_int n"

definition lower_char :: "char \<Rightarrow> char" where
  "lower_char c =
     (let n = (of_char c :: nat) in if 65 \<le> n \<and> n \<le> 90 then char_of (n + 32) else c)"

definition py_lower :: "string \<Rightarrow> string" where
  "py_lower s = map lower_char s"

definition is_alpha :: "char \<Rightarrow> bool" where
  "is_alpha c =
     (let n = (of_char c :: nat) in (65 \<le> n \<and> n \<le> 90) \<or> (97 \<le> n \<and> n \<le> 122))"

definition is_digit :: "char \<Rightarrow> bool" where
  "is_digit c = (let n = (of_char c :: nat) in 48 \<le> n \<and> n \<le> 57)"

definition isalnum :: "char \<Rightarrow> bool" where
  "isalnum c = (is_alpha c \<or> is_digit c)"

text \<open>\<open>a in b\<close> on two strings: \<open>a\<close> occurs in \<open>b\<close> as a contiguous block.\<close>

definition py_in :: "string \<Rightarrow> string \<Rightarrow> bool" where
  "py_in a b = sublist a b"

text \<open>\<open>sep.join(parts)\<close>\<close>

fun join :: "string \<Rightarrow> string list \<Rightarrow> string" where
  "join sep [] = []"
| "join sep [x] = x"
| "join sep (x # y # ys) = x @ sep @ join sep (y # ys)"

subsection \<open>\<open>json.dumps(row_data, default=str)\<close>\<close>

definition hex_digit :: "nat \<Rightarrow> char" where
  "hex_digit n = (if n < 10 then char_of (48 + n) else char_of (87 + n))"

text \<open>
  The encoder's default \<open>ensure_ascii\<close> escaping: the quote and the backslash get a
  backslash, the five named control characters their letter, and every other character
  outside the range from space to tilde a \<open>\u00XX\<close> escape.
\<close>

definition json_escape_char :: "char \<Rightarrow> string" where
  "json_escape_char c =
     (let n = (of_char c :: nat) in
      if n = 34 then [CHR 0x5C, CHR 0x22]
      else if n = 92 then [CHR 0x5C, CHR 0x5C]
      else if n = 8 then [CHR 0x5C, CHR ''b'']
      else if n = 12 then [CHR 0x5C, CHR ''f'']
      else if n = 10 then [CHR 0x5C, CHR ''n'']
      else if n = 13 then [CHR 0x5C, CHR ''r'']
      else if n = 9 then [CHR 0x5C, CHR ''t'']
      else if 32 \<le> n \<and> n \<le> 126 then [c]
      else [CHR 0x5C, CHR ''u'', CHR ''0'', CHR ''0'', hex_digit (n div 16), hex_digit (n mod 16)])"

definition json_string :: "string \<Rightarrow> string" where
  "json_string s = [CHR 0x22] @ concat (map json_escape_char s) @ [CHR 0x22]"

fun json_value :: "pyval \<Rightarrow> string" where
  "json_value PNone = ''null''"
| "json_value NaN = ''NaN''"
| "json_value (Str s) = json_string s"
| "json_value (Num n) = str_of_int n"

text \<open>A row as a dictionary: column names in column order, each with its cell.\<close>

type_synonym row = "(string \<times> pyval) list"

definition json_dumps :: "row \<Rightarrow> string" where
  "json_dumps d =
     ''{'' @ join '', '' (map (\<lambda>(k, v). json_string k @ '': '' @ json_value v) d) @ ''}''"

section \<open>The outside world and the session state\<close>

record chat_request =
  model :: string
  system_content :: string
  user_content :: string
  json_object :: bool
  max_tokens :: nat

text \<open>Every request that leaves the process is appended to the session's trace.\<close>

datatype ext_call =
    DnsResolve string string
  | HttpHead string
  | HttpGet string
  | TrafilaturaFetch string
  | OpenAIChat chat_request

text \<open>
  What the completion call gives back: \<open>AIRaises msg\<close> when anything between the request
  and the reading of the parsed object raises, \<open>msg\<close> being \<open>str(e)\<close>; otherwise
  \<open>AIReply r\<close>, where \<open>r\<close> is the member \<open>status\<close> of the parsed JSON object, if it has one.
\<close>

datatype ai_outcome = AIRaises string | AIReply "pyval option"

text \<open>
  The third-party deliverability API: the request or the decoding of its body raises, or
  it answers with a status code and, in the body, possibly a \<open>deliverability\<close> member.
\<close>

datatype abstract_outcome = AbstractRaises | AbstractResponse int "pyval option"

datatype fetch_outcome = FetchRaises | Fetched "string option"

datatype extract_outcome = ExtractRaises | Extracted "string option"

record serp_result =
  sr_title :: "pyval option"
  sr_snippet :: "pyval option"
  sr_link :: "pyval option"

text \<open>
  The search API's parsed body: the list under \<open>organic_results\<close> and the items of the
  dictionary under \<open>knowledge_graph\<close>, each if present.
\<close>

datatype serp_outcome =
    SerpRaises
  | SerpData "serp_result list option" "(string \<times> pyval) list option"

text \<open>
  One \<open>div.result__body\<close> of the public search page: its \<open>a.result__a\<close> element (text
  and \<open>href\<close>) and the text of its \<open>a.result__snippet\<close> element, each if present.
\<close>

record anchor =
  a_text :: string
  a_href :: string

record ddg_result =
  result_a :: "anchor option"
  result_snippet :: "string option"

text \<open>
  The environment of a session: the three credentials, Python's per-process string
  \<open>hash\<close>, the Unicode tables behind \<open>str.isalnum\<close> and \<open>str.lower\<close> on one character
  (company names carry letters beyond ASCII, and the lower-case form of a character may
  be more than one character), and one oracle for each kind of request. An oracle sees
  the trace of the requests made so far, so the world may answer the same request
  differently over time.
\<close>

record environment =
  openai_api_key :: string
  abstract_api_key :: "string option"
  serpapi_key :: "string option"
  py_hash :: "string \<Rightarrow> int"
  str_isalnum :: "char \<Rightarrow> bool"
  str_lower :: "char \<Rightarrow> string"
  dns_resolve :: "ext_call list \<Rightarrow> string \<Rightarrow> string \<Rightarrow> bool"
  abstract_api :: "ext_call list \<Rightarrow> string \<Rightarrow> abstract_outcome"
  http_head :: "ext_call list \<Rightarrow> string \<Rightarrow> int option"
  trafilatura_fetch :: "ext_call list \<Rightarrow> string \<Rightarrow> fetch_outcome"
  trafilatura_extract :: "string \<Rightarrow> extract_outcome"
  site_get :: "ext_call list \<Rightarrow> string \<Rightarrow> string list option"
  serp_get :: "ext_call list \<Rightarrow> string \<Rightarrow> serp_outcome"
  ddg_get :: "ext_call list \<Rightarrow> string \<Rightarrow> ddg_result list option"
  openai_chat :: "ext_call list \<Rightarrow> chat_request \<Rightarrow> ai_outcome"

text \<open>The module-level globals of the four modules, and the trace.\<close>

record session =
  validation_cache :: "pyval \<rightharpoonup> string"
  dns_cache :: "string \<rightharpoonup> bool"
  web_cache :: "string \<rightharpoonup> string"
  ai_cache :: "string \<rightharpoonup> pyval"
  ai_quota_exceeded :: bool
  ai_error_message :: string
  trace :: "ext_call list"

definition init_session :: session where
  "init_session =
     \<lparr>validation_cache = Map.empty, dns_cache = Map.empty, web_cache = Map.empty,
      ai_cache = Map.empty, ai_quota_exceeded = False, ai_error_message = [],
      trace = []\<rparr>"

definition log_call :: "ext_call \<Rightarrow> session \<Rightarrow> session" where
  "log_call c st = st\<lparr>trace := trace st @ [c]\<rparr>"

section \<open>The AI judge (\<open>openai_verification.py\<close>)\<close>

definition quota_signature :: "string \<Rightarrow> bool" where
  "quota_signature error_msg =
     (py_in ''quota'' (py_lower error_msg) \<or> py_in ''insufficient'' (py_lower error_msg))"

definition api_key_signature :: "string \<Rightarrow> bool" where
  "api_key_signature error_msg =
     (py_in ''api key'' (py_lower error_msg) \<or> py_in ''apikey'' (py_lower error_msg))"

text \<open>The \<open>except\<close> block shared by \<open>check_api_status\<close> and \<open>verify_contact_with_ai\<close>.\<close>

definition record_ai_error :: "string \<Rightarrow> session \<Rightarrow> session" where
  "record_ai_error error_msg st =
     (if quota_signature error_msg then
        st\<lparr>ai_quota_exceeded := True,
           ai_error_message :=
             ''OpenAI API quota exceeded. Advanced verification has been disabled.''\<rparr>
      else if api_key_signature error_msg then
        st\<lparr>ai_quota_exceeded := True,
           ai_error_message :=
             ''Invalid OpenAI API key. Advanced verification has been disabled.''\<rparr>
      else
        st\<lparr>ai_error_message :=
             ''OpenAI API error: '' @ error_msg
               @ ''. Some verification features may be limited.''\<rparr>)"

definition check_request :: chat_request where
  "check_request =
     \<lparr>model = ''gpt-3.5-turbo'', system_content = ''You are a helpful assistant.'',
      user_content = ''Return the word 'working' if you can read this.'',
      json_object = False, max_tokens = 5\<rparr>"

definition check_api_status :: "environment \<Rightarrow> session \<Rightarrow> bool \<times> session" where
  "check_api_status env st =
     (if openai_api_key env = [] then
        (False, st\<lparr>ai_error_message :=
           ''No OpenAI API key found. Advanced verification is disabled.''\<rparr>)
      else if ai_quota_exceeded st then (False, st)
      else
        (case openai_chat env (trace st) check_request of
           AIReply r \<Rightarrow> (True, log_call (OpenAIChat check_request) st)
         | AIRaises error_msg \<Rightarrow>
             (False, record_ai_error error_msg (log_call (OpenAIChat check_request) st))))"

definition endswith :: "string \<Rightarrow> string \<Rightarrow> bool" where
  "endswith s suf = suffix suf s"

definition startswith :: "string \<Rightarrow> string \<Rightarrow> bool" where
  "startswith s pre = prefix pre s"

definition checklist_job_title :: string where
  "checklist_job_title =
     ''\<newline>            \<newline>For this job title verification:\<newline>''
     @ ''1. Check if the job title is typical for the company's industry\<newline>''
     @ ''2. Consider the company size and whether such a position would exist there\<newline>''
     @ ''3. Verify if the job title aligns with the person's LinkedIn profile\<newline>''
     @ ''4. Look for any inconsistencies between the job title and other contact information\<newline>''
     @ ''5. Consider if the job title has appropriate seniority for the contact's other attributes\<newline>''"

definition checklist_linkedin :: string where
  "checklist_linkedin =
     ''\<newline>            \<newline>For this LinkedIn profile verification:\<newline>''
     @ ''1. Check if the URL format matches LinkedIn's standard format\<newline>''
     @ ''2. Verify if the profile name matches the contact's name\<newline>''
     @ ''3. Consider if the profile seems to belong to someone at the specified company\<newline>''
     @ ''4. Look for any inconsistencies with other contact information\<newline>''"

definition checklist_company :: string where
  "checklist_company =
     ''\<newline>            \<newline>For this company verification:\<newline>''
     @ ''1. Check if the company name and domain align with each other\<newline>''
     @ ''2. Verify if the company appears to be legitimate based on industry and other details\<newline>''
     @ ''3. Consider if the company location matches the provided address information\<newline>''
     @ ''4. Look for any inconsistencies that might suggest the company is not valid\<newline>''"

definition checklist_generic :: string where
  "checklist_generic =
     ''\<newline>            \<newline>For this detailed verification:\<newline>''
     @ ''1. Check if the information is internally consistent with other contact details\<newline>''
     @ ''2. Verify if the information follows expected patterns and formats\<newline>''
     @ ''3. Consider if there are any red flags or unusual elements in the data\<newline>''
     @ ''4. Look for evidence that confirms or contradicts the information\<newline>''"

definition prompt_footer :: string where
  "prompt_footer =
     ''\<newline>    \<newline>For example, for a company name, you would check if it seems like a real company that matches the industry and other information provided.\<newline>''
     @ ''For a person's name, you'd check if it seems like a realistic name that matches the company and role.\<newline>''
     @ ''For an address, you'd check if it appears to be a valid address format and is in the correct city/state.\<newline>''
     @ ''For a job title, you'd check if it seems appropriate for the company and industry.\<newline>''
     @ ''\<newline>Respond with a JSON object containing:\<newline>''
     @ ''- A 'status' field with one of these values: 'Valid', 'Uncertain', or 'Invalid'\<newline>''
     @ ''- A 'reason' field explaining your decision with specific details\<newline>''"

text \<open>The context lines: every other field of the row that is not a verdict column.\<close>

definition context_lines :: "string \<Rightarrow> row \<Rightarrow> string" where
  "context_lines field_name row_data =
     concat (map (\<lambda>(k, v). k @ '': '' @ py_str v @ ''\<newline>'')
       (filter (\<lambda>(k, v). k \<noteq> field_name \<and> \<not> endswith k ''_status'') row_data))"

definition create_verification_prompt :: "string \<Rightarrow> pyval \<Rightarrow> row \<Rightarrow> bool \<Rightarrow> string" where
  "create_verification_prompt field_name field_value row_data use_deep_search =
     ''I need to verify if this information is correct:\<newline>Field: '' @ field_name
     @ ''\<newline>Value: '' @ py_str field_value
     @ ''\<newline>\<newline>Here's the context (other information about this contact):\<newline>''
     @ context_lines field_name row_data
     @ ''\<newline>Based on this information and your knowledge, analyze if the value for the field appears to be valid, uncertain, or invalid.''
     @ (if use_deep_search then
          (if field_name = ''Contact Job Title'' then checklist_job_title
           else if py_in ''LinkedIn'' field_name then checklist_linkedin
           else if field_name \<in> set [''Company Name'', ''Company Domain''] then checklist_company
           else checklist_generic)
        else [])
     @ prompt_footer"

definition system_message :: "string \<Rightarrow> bool \<Rightarrow> string" where
  "system_message field_name use_deep_search =
     ''You are a data verification expert specializing in contact and company information.''
     @ (if use_deep_search \<and> field_name = ''Contact Job Title'' then
          '' You must verify job titles by considering company size, industry trends, and typical organizational structures.''
        else if use_deep_search \<and> py_in ''LinkedIn'' field_name then
          '' You must verify LinkedIn profiles by examining URL patterns and consistency with other contact information.''
        else [])
     @ '' Your task is to verify if the given information appears to be accurate based on your knowledge and the context provided. Respond with a JSON object containing a 'status' field with one of these values: 'Valid', 'Uncertain', or 'Invalid', and a 'reason' field explaining your decision.''"

definition cache_key :: "environment \<Rightarrow> string \<Rightarrow> pyval \<Rightarrow> row \<Rightarrow> bool \<Rightarrow> string" where
  "cache_key env field_name field_value row_data use_deep_search =
     field_name @ '':'' @ py_str field_value @ '':''
     @ str_of_int (py_hash env (json_dumps row_data)) @ '':'' @ str_of_bool use_deep_search"

definition verification_request :: "string \<Rightarrow> pyval \<Rightarrow> row \<Rightarrow> bool \<Rightarrow> chat_request" where
  "verification_request field_name field_value row_data use_deep_search =
     \<lparr>model = (if use_deep_search then ''gpt-4'' else ''gpt-3.5-turbo''),
      system_content = system_message field_name use_deep_search,
      user_content = create_verification_prompt field_name field_value row_data use_deep_search,
      json_object = True,
      max_tokens = (if use_deep_search then 400 else 150)\<rparr>"

definition verify_contact_with_ai ::
  "environment \<Rightarrow> session \<Rightarrow> string \<Rightarrow> pyval \<Rightarrow> row \<Rightarrow> bool \<Rightarrow> pyval \<times> session" where
  "verify_contact_with_ai env st field_name field_value row_data use_deep_search =
     (if openai_api_key env = [] \<or> ai_quota_exceeded st then (Str ''Uncertain'', st)
      else
        let key = cache_key env field_name field_value row_data use_deep_search in
        case ai_cache st key of
          Some cached \<Rightarrow> (cached, st)
        | None \<Rightarrow>
            let req = verification_request field_name field_value row_data use_deep_search;
                st1 = log_call (OpenAIChat req) st
            in (case openai_chat env (trace st) req of
                  AIReply result \<Rightarrow>
                    let status = (case result of None \<Rightarrow> Str ''Uncertain'' | Some s \<Rightarrow> s)
                    in (status, st1\<lparr>ai_cache := (ai_cache st1)(key \<mapsto> status)\<rparr>)
                | AIRaises error_msg \<Rightarrow> (Str ''Uncertain'', record_ai_error error_msg st1)))"

section \<open>The web evidence gatherer (\<open>web_utils.py\<close>)\<close>

definition upper_hex_digit :: "nat \<Rightarrow> char" where
  "upper_hex_digit n = (if n < 10 then char_of (48 + n) else char_of (55 + n))"

text \<open>
  \<open>urllib.parse.quote\<close> with its default safe set: letters, digits and \<open>_.-~/\<close> stay,
  every other character becomes \<open>%XX\<close>.
\<close>

definition quote_char :: "char \<Rightarrow> string" where
  "quote_char c =
     (if isalnum c \<or> c \<in> set ''_.-~/'' then [c]
      else [CHR ''%'', upper_hex_digit (of_char c div 16), upper_hex_digit (of_char c mod 16)])"

definition quote :: "string \<Rightarrow> string" where
  "quote s = concat (map quote_char s)"

text \<open>The fallback of the scraper: the texts of the paragraph, heading and list tags.\<close>

definition markup_text :: "environment \<Rightarrow> session \<Rightarrow> string \<Rightarrow> string \<times> session" where
  "markup_text env st url =
     (case site_get env (trace st) url of
        None \<Rightarrow> ([], log_call (HttpGet url) st)
      | Some tags \<Rightarrow> (concat (map (\<lambda>t. t @ ''\<newline>'') tags), log_call (HttpGet url) st))"

definition scrape_company_website :: "environment \<Rightarrow> session \<Rightarrow> string \<Rightarrow> string \<times> session" where
  "scrape_company_website env st domain =
     (if domain = [] then ([], st)
      else
        let url = (if \<not> startswith domain ''http'' then ''https://'' @ domain else domain);
            st1 = log_call (TrafilaturaFetch url) st
        in (case trafilatura_fetch env (trace st) url of
              FetchRaises \<Rightarrow> ([], st1)
            | Fetched None \<Rightarrow> ([], st1)
            | Fetched (Some downloaded) \<Rightarrow>
                if downloaded = [] then ([], st1)
                else
                  (case trafilatura_extract env downloaded of
                     ExtractRaises \<Rightarrow> ([], st1)
                   | Extracted None \<Rightarrow> markup_text env st1 url
                   | Extracted (Some text) \<Rightarrow>
                       if text = [] then markup_text env st1 url else (text, st1))))"

text \<open>\<open>result.get(key, '')\<close> inside an f-string.\<close>

definition get_or_empty :: "pyval option \<Rightarrow> string" where
  "get_or_empty v = (case v of None \<Rightarrow> [] | Some x \<Rightarrow> py_str x)"

definition serp_result_text :: "serp_result \<Rightarrow> string" where
  "serp_result_text r =
     get_or_empty (sr_title r) @ ''\<newline>'' @ get_or_empty (sr_snippet r) @ ''\<newline>''
     @ get_or_empty (sr_link r) @ ''\<newline>\<newline>''"

definition knowledge_graph_text :: "(string \<times> pyval) list \<Rightarrow> string" where
  "knowledge_graph_text kg =
     concat (map (\<lambda>(key, v). case v of Str s \<Rightarrow> key @ '': '' @ s @ ''\<newline>'' | _ \<Rightarrow> []) kg)"

definition search_using_serpapi ::
  "environment \<Rightarrow> session \<Rightarrow> pyval \<Rightarrow> string \<Rightarrow> string \<times> session" where
  "search_using_serpapi env st company_name api_key =
     (case company_name of
        Str name \<Rightarrow>
          let url = ''https://serpapi.com/search.json?q='' @ quote name @ ''&api_key='' @ api_key;
              st1 = log_call (HttpGet url) st
          in (case serp_get env (trace st) url of
                SerpRaises \<Rightarrow> ([], st1)
              | SerpData organic_results knowledge_graph \<Rightarrow>
                  (case organic_results of
                     None \<Rightarrow> ([], st1)
                   | Some results \<Rightarrow>
                       (concat (map serp_result_text (take 3 results))
                        @ (case knowledge_graph of
                             None \<Rightarrow> []
                           | Some kg \<Rightarrow> knowledge_graph_text kg),
                        st1)))
      | _ \<Rightarrow> ([], st))"

definition ddg_result_text :: "ddg_result \<Rightarrow> string" where
  "ddg_result_text r =
     (case result_a r of None \<Rightarrow> ''No title'' | Some title_elem \<Rightarrow> a_text title_elem)
     @ ''\<newline>''
     @ (case result_snippet r of None \<Rightarrow> ''No snippet'' | Some snippet \<Rightarrow> snippet)
     @ ''\<newline>\<newline>''"

definition search_using_duckduckgo ::
  "environment \<Rightarrow> session \<Rightarrow> pyval \<Rightarrow> string \<times> session" where
  "search_using_duckduckgo env st company_name =
     (let query = py_str company_name @ '' company information'';
          url = ''https://html.duckduckgo.com/html/?q='' @ quote query;
          st1 = log_call (HttpGet url) st
      in case ddg_get env (trace st) url of
           None \<Rightarrow> ([], st1)
         | Some results \<Rightarrow> (concat (map ddg_result_text (take 3 results)), st1))"

definition search_for_company :: "environment \<Rightarrow> session \<Rightarrow> pyval \<Rightarrow> string \<times> session" where
  "search_for_company env st company_name =
     (case serpapi_key env of
        Some k \<Rightarrow>
          if k \<noteq> [] then search_using_serpapi env st company_name k
          else search_using_duckduckgo env st company_name
      | None \<Rightarrow> search_using_duckduckgo env st company_name)"

text \<open>
  Strategy 1 of the gatherer. \<open>company_name.lower() == domain.lower()\<close> is evaluated
  outside any \<open>try\<close>: a company name or a domain that is not a string raises there.
\<close>

definition site_strategy ::
  "environment \<Rightarrow> session \<Rightarrow> pyval \<Rightarrow> pyval \<Rightarrow> (exn + string) \<times> session" where
  "site_strategy env st company_name domain =
     (if \<not> truthy domain then (Inr [], st)
      else
        (case (company_name, domain) of
           (Str c, Str d) \<Rightarrow>
             if py_lower c \<noteq> py_lower d then
               (let (website_info, st1) = scrape_company_website env st d
                in (Inr (if website_info \<noteq> [] then website_info @ ''\<newline>\<newline>'' else []), st1))
             else (Inr [], st)
         | _ \<Rightarrow> (Inl AttributeError, st)))"

definition web_cache_key :: "pyval \<Rightarrow> pyval \<Rightarrow> string" where
  "web_cache_key company_name domain = py_str company_name @ ''_'' @ py_str domain"

definition get_company_info_from_web ::
  "environment \<Rightarrow> session \<Rightarrow> pyval \<Rightarrow> pyval \<Rightarrow> (exn + string) \<times> session" where
  "get_company_info_from_web env st company_name domain =
     (if \<not> truthy company_name then (Inr [], st)
      else
        (case web_cache st (web_cache_key company_name domain) of
           Some cached \<Rightarrow> (Inr cached, st)
         | None \<Rightarrow>
             (case site_strategy env st company_name domain of
                (Inl e, st1) \<Rightarrow> (Inl e, st1)
              | (Inr site_info, st1) \<Rightarrow>
                  (let (search_results, st2) = search_for_company env st1 company_name;
                       combined_info =
                         site_info @ (if search_results \<noteq> [] then search_results else [])
                   in (Inr combined_info,
                       st2\<lparr>web_cache :=
                         (web_cache st2)(web_cache_key company_name domain \<mapsto> combined_info)\<rparr>)))))"

section \<open>The email validator (\<open>email_validator.py\<close>)\<close>

definition local_char :: "char \<Rightarrow> bool" where
  "local_char c = (isalnum c \<or> c \<in> set ''._%+-'')"

definition domain_char :: "char \<Rightarrow> bool" where
  "domain_char c = (isalnum c \<or> c \<in> set ''.-'')"

text \<open>
  The whole of \<open>s\<close> matches \<open>[a-zA-Z0-9._%+-]+@[a-zA-Z0-9.-]+\.[a-zA-Z]{2,}\<close>: no class
  holds the at sign, so the local part is what precedes the first one, and the last
  label holds no dot, so it is what follows the last dot.
\<close>

definition email_pattern :: "string \<Rightarrow> bool" where
  "email_pattern s =
     (let local = takeWhile (\<lambda>c. c \<noteq> CHR ''@'') s;
          rest = drop (length local) s
      in local \<noteq> [] \<and> list_all local_char local \<and>
         (case rest of
            [] \<Rightarrow> False
          | at # after \<Rightarrow>
              (let tld = rev (takeWhile (\<lambda>c. c \<noteq> CHR ''.'') (rev after));
                   host = take (length after - length tld - 1) after
               in length tld < length after \<and> host \<noteq> [] \<and> list_all domain_char host \<and>
                  2 \<le> length tld \<and> list_all is_alpha tld)))"

text \<open>
  \<open>re.match\<close> of the anchored pattern: the final \<open>$\<close> also matches just before a
  newline that ends the string.
\<close>

definition re_match_email :: "string \<Rightarrow> bool" where
  "re_match_email s =
     (email_pattern s \<or> (s \<noteq> [] \<and> last s = CHR ''\<newline>'' \<and> email_pattern (butlast s)))"

fun is_valid_email_syntax :: "pyval \<Rightarrow> bool" where
  "is_valid_email_syntax (Str s) = (s \<noteq> [] \<and> re_match_email s)"
| "is_valid_email_syntax v = False"

text \<open>\<open>email.split('@')[-1]\<close>: what follows the last at sign.\<close>

definition email_domain :: "string \<Rightarrow> string" where
  "email_domain email = rev (takeWhile (\<lambda>c. c \<noteq> CHR ''@'') (rev email))"

definition verify_domain_mx :: "environment \<Rightarrow> session \<Rightarrow> string \<Rightarrow> bool \<times> session" where
  "verify_domain_mx env st domain =
     (case dns_cache st domain of
        Some cached \<Rightarrow> (cached, st)
      | None \<Rightarrow>
          let st1 = log_call (DnsResolve domain ''MX'') st in
          if dns_resolve env (trace st) domain ''MX'' then
            (True, st1\<lparr>dns_cache := (dns_cache st1)(domain \<mapsto> True)\<rparr>)
          else
            let st2 = log_call (DnsResolve domain ''A'') st1 in
            if dns_resolve env (trace st1) domain ''A'' then
              (True, st2\<lparr>dns_cache := (dns_cache st2)(domain \<mapsto> True)\<rparr>)
            else (False, st2\<lparr>dns_cache := (dns_cache st2)(domain \<mapsto> False)\<rparr>))"

definition disposable_domains :: "string list" where
  "disposable_domains =
     [''temp-mail.org'', ''tempmail.com'', ''throwawaymail.com'', ''mailinator.com'',
      ''yopmail.com'', ''guerrillamail.com'', ''sharklasers.com'', ''10minutemail.com'',
      ''trashmail.com'', ''mailnesia.com'', ''maildrop.cc'', ''getairmail.com'',
      ''getnada.com'', ''emailondeck.com'', ''spamgourmet.com'', ''fakeinbox.com'',
      ''tempinbox.com'', ''temp-mail.ru'', ''dispostable.com'']"

definition is_disposable_domain :: "string \<Rightarrow> bool" where
  "is_disposable_domain domain = (py_lower domain \<in> set disposable_domains)"

definition remember :: "pyval \<Rightarrow> string \<Rightarrow> session \<Rightarrow> string \<times> session" where
  "remember email status st =
     (status, st\<lparr>validation_cache := (validation_cache st)(email \<mapsto> status)\<rparr>)"

text \<open>Step 4 of \<open>validate_email\<close>, taken when the deliverability credential is set.\<close>

definition deliverability_check ::
  "environment \<Rightarrow> session \<Rightarrow> string \<Rightarrow> pyval \<Rightarrow> string \<times> session" where
  "deliverability_check env st api_key email =
     (let url = ''https://emailvalidation.abstractapi.com/v1/?api_key='' @ api_key
                @ ''&email='' @ py_str email;
          st1 = log_call (HttpGet url) st
      in case abstract_api env (trace st) url of
           AbstractRaises \<Rightarrow> remember email ''Uncertain'' st1
         | AbstractResponse status_code deliverability \<Rightarrow>
             if status_code = 200 \<and> deliverability = Some (Str ''DELIVERABLE'') then
               remember email ''Valid'' st1
             else if status_code = 200 \<and> deliverability = Some (Str ''UNDELIVERABLE'') then
               remember email ''Invalid'' st1
             else remember email ''Uncertain'' st1)"

definition validate_email :: "environment \<Rightarrow> session \<Rightarrow> pyval \<Rightarrow> string \<times> session" where
  "validate_email env st email =
     (case validation_cache st email of
        Some cached \<Rightarrow> (cached, st)
      | None \<Rightarrow>
          if \<not> is_valid_email_syntax email then remember email ''Invalid'' st
          else
            let domain = email_domain (py_str email);
                (has_mx, st1) = verify_domain_mx env st domain
            in if \<not> has_mx then remember email ''Uncertain'' st1
               else if is_disposable_domain domain then remember email ''Invalid'' st1
               else
                 (case abstract_api_key env of
                    None \<Rightarrow> remember email ''Valid'' st1
                  | Some k \<Rightarrow>
                      if k = [] then remember email ''Valid'' st1
                      else deliverability_check env st1 k email))"

section \<open>The orchestrator (\<open>data_verification.py\<close>)\<close>

definition Valid :: pyval where "Valid = Str ''Valid''"
definition Uncertain :: pyval where "Uncertain = Str ''Uncertain''"
definition Invalid :: pyval where "Invalid = Str ''Invalid''"

text \<open>\<open>x and not pd.isna(x) and x != ''\<close>\<close>

definition present :: "pyval \<Rightarrow> bool" where
  "present x = (truthy x \<and> \<not> isna x \<and> x \<noteq> Str [])"

definition verify_name_against_company ::
  "environment \<Rightarrow> session \<Rightarrow> pyval \<Rightarrow> pyval \<Rightarrow> pyval \<Rightarrow> pyval \<Rightarrow> pyval \<times> session" where
  "verify_name_against_company env st first_name last_name company company_domain =
     (case get_company_info_from_web env st company company_domain of
        (Inl e, st1) \<Rightarrow> (Uncertain, st1)
      | (Inr company_info, st1) \<Rightarrow>
          let full_name = py_lower (py_str first_name @ '' '' @ py_str last_name)
          in if py_in full_name (py_lower company_info) then (Valid, st1)
             else (Uncertain, st1))"

definition verify_company_exists ::
  "environment \<Rightarrow> session \<Rightarrow> pyval \<Rightarrow> pyval \<Rightarrow> pyval \<times> session" where
  "verify_company_exists env st company company_domain =
     (case get_company_info_from_web env st company company_domain of
        (Inl e, st1) \<Rightarrow> (Uncertain, st1)
      | (Inr company_info, st1) \<Rightarrow>
          if length company_info > 100 then (Valid, st1)
          else if length company_info > 0 then (Uncertain, st1)
          else (Invalid, st1))"

text \<open>\<open>''.join(e.lower() for e in s if e.isalnum())\<close>\<close>

definition simple :: "environment \<Rightarrow> string \<Rightarrow> string" where
  "simple env s = concat (map (str_lower env) (filter (str_isalnum env) s))"

text \<open>
  A domain or a company that is a number makes \<open>in\<close>, respectively the iteration, raise
  \<open>TypeError\<close> inside the \<open>try\<close>: the handler answers \<open>Uncertain\<close>.
\<close>

definition verify_company_domain ::
  "environment \<Rightarrow> session \<Rightarrow> pyval \<Rightarrow> pyval \<Rightarrow> pyval \<times> session" where
  "verify_company_domain env st domain company =
     (if \<not> truthy domain \<or> isna domain \<or> domain = Str [] then (Uncertain, st)
      else
        (case domain of
           Str d \<Rightarrow>
             if \<not> py_in ''.'' d \<or> py_in '' '' d then (Invalid, st)
             else
               let url = ''https://'' @ d;
                   st1 = log_call (HttpHead url) st
               in (case http_head env (trace st) url of
                     None \<Rightarrow> (Uncertain, st1)
                   | Some status_code \<Rightarrow>
                       if status_code < 400 then
                         (if present company then
                            (case company of
                               Str c \<Rightarrow>
                                 if py_in (simple env c) (simple env d) then (Valid, st1)
                                 else (Uncertain, st1)
                             | _ \<Rightarrow> (Uncertain, st1))
                          else (Valid, st1))
                       else (Uncertain, st1))
         | _ \<Rightarrow> (Uncertain, st)))"

definition is_space :: "char \<Rightarrow> bool" where
  "is_space c = (let n = (of_char c :: nat) in (9 \<le> n \<and> n \<le> 13) \<or> (28 \<le> n \<and> n \<le> 32))"

fun split_from :: "string \<Rightarrow> string \<Rightarrow> string list" where
  "split_from cur [] = (if cur = [] then [] else [cur])"
| "split_from cur (c # cs) =
     (if is_space c then (if cur = [] then split_from [] cs else cur # split_from [] cs)
      else split_from (cur @ [c]) cs)"

text \<open>\<open>s.split()\<close>: the maximal blocks of \<open>s\<close> without whitespace.\<close>

definition py_split :: "string \<Rightarrow> string list" where
  "py_split s = split_from [] s"

definition verify_address_component ::
  "environment \<Rightarrow> session \<Rightarrow> string \<Rightarrow> pyval \<Rightarrow> pyval \<Rightarrow> row option \<Rightarrow> bool \<Rightarrow> bool
     \<Rightarrow> pyval \<times> session" where
  "verify_address_component env st component_type component_value company row_data use_ai
       use_deep_search =
     (if present company then
        (case get_company_info_from_web env st company PNone of
           (Inl e, st1) \<Rightarrow> (Uncertain, st1)
         | (Inr company_info, st1) \<Rightarrow>
             if component_type = ''Company Address'' then
               (let address_parts = py_split (py_lower (py_str component_value));
                    matches =
                      length (filter (\<lambda>part. py_in part (py_lower company_info)) address_parts)
                in if 2 * matches > length address_parts then (Valid, st1)
                   else if matches > 0 then (Uncertain, st1)
                   else (Invalid, st1))
             else if component_type \<in> set [''Company City'', ''Company State'', ''Company Country'']
             then
               (if py_in (py_lower (py_str component_value)) (py_lower company_info) then
                  (Valid, st1)
                else
                  (case row_data of
                     Some row_dict \<Rightarrow>
                       if use_ai then
                         verify_contact_with_ai env st1 component_type component_value row_dict
                           use_deep_search
                       else (Uncertain, st1)
                   | None \<Rightarrow> (Uncertain, st1)))
             else if component_type = ''Company Postal Code'' then
               (if py_in (py_str component_value) company_info then (Valid, st1)
                else (Uncertain, st1))
             else (PNone, st1))
      else (Uncertain, st))"

definition verify_industry ::
  "environment \<Rightarrow> session \<Rightarrow> pyval \<Rightarrow> pyval \<Rightarrow> bool \<Rightarrow> bool \<Rightarrow> pyval \<times> session" where
  "verify_industry env st industry company use_ai use_deep_search =
     (if present company then
        (case get_company_info_from_web env st company PNone of
           (Inl e, st1) \<Rightarrow> (Uncertain, st1)
         | (Inr company_info, st1) \<Rightarrow>
             if py_in (py_lower (py_str industry)) (py_lower company_info) then (Valid, st1)
             else if use_ai then
               verify_contact_with_ai env st1 ''Company Industry'' industry
                 [(''Company Name'', company), (''Company Industry'', industry)] use_deep_search
             else (Uncertain, st1))
      else (Uncertain, st))"

text \<open>
  The loop \<open>for company_col in ["Company", "Company Name"]\<close>, which \<open>verify_data\<close>
  repeats in four of its branches: the first listed column that the row has and whose
  cell is not missing gives the company, and \<open>None\<close> is left when there is none.
\<close>

fun first_company :: "row \<Rightarrow> string list \<Rightarrow> pyval" where
  "first_company row_data [] = PNone"
| "first_company row_data (company_col # cols) =
     (case map_of row_data company_col of
        Some v \<Rightarrow> if \<not> isna v then v else first_company row_data cols
      | None \<Rightarrow> first_company row_data cols)"

definition resolve_company :: "row \<Rightarrow> pyval" where
  "resolve_company row_data = first_company row_data [''Company'', ''Company Name'']"

text \<open>\<open>row_data.iloc[0][col]\<close>, which raises \<open>KeyError\<close> for a column the row lacks.\<close>

definition cell :: "row \<Rightarrow> string \<Rightarrow> exn + pyval" where
  "cell row_data col =
     (case map_of row_data col of None \<Rightarrow> Inl (KeyError col) | Some v \<Rightarrow> Inr v)"

text \<open>\<open>row_data.iloc[0]["Company Domain"] if "Company Domain" in row_data.columns else None\<close>\<close>

definition company_domain_of :: "row \<Rightarrow> pyval" where
  "company_domain_of row_data =
     (case map_of row_data ''Company Domain'' of None \<Rightarrow> PNone | Some d \<Rightarrow> d)"

definition address_columns :: "string list" where
  "address_columns =
     [''Company Address'', ''Company City'', ''Company State'', ''Company Country'',
      ''Company Postal Code'']"

text \<open>
  The body of the \<open>try\<close> of \<open>verify_data\<close> for one column whose cell is \<open>v\<close>; \<open>Inl\<close> is an
  exception that reaches the handler.
\<close>

definition dispatch ::
  "environment \<Rightarrow> session \<Rightarrow> row \<Rightarrow> string \<Rightarrow> pyval \<Rightarrow> bool \<Rightarrow> bool
     \<Rightarrow> (exn + pyval) \<times> session" where
  "dispatch env st row_data col v use_ai use_deep_search =
     (if col = ''Email'' then
        (let (email_status, st1) = validate_email env st v in (Inr (Str email_status), st1))
      else if col \<in> set [''First Name'', ''Last Name''] then
        (let company = resolve_company row_data;
             company_domain = company_domain_of row_data
         in if truthy company then
              (case cell row_data ''First Name'' of
                 Inl e \<Rightarrow> (Inl e, st)
               | Inr first_name \<Rightarrow>
                   (case cell row_data ''Last Name'' of
                      Inl e \<Rightarrow> (Inl e, st)
                    | Inr last_name \<Rightarrow>
                        (let (name_status, st1) =
                               verify_name_against_company env st first_name last_name company
                                 company_domain
                         in (Inr name_status, st1))))
            else (Inr Uncertain, st))
      else if col \<in> set [''Company'', ''Company Name''] then
        (let (company_status, st1) = verify_company_exists env st v (company_domain_of row_data)
         in (Inr company_status, st1))
      else if col = ''Company Domain'' then
        (let (domain_status, st1) = verify_company_domain env st v (resolve_company row_data)
         in (Inr domain_status, st1))
      else if col \<in> set address_columns then
        (let (address_status, st1) =
               verify_address_component env st col v (resolve_company row_data) (Some row_data)
                 use_ai use_deep_search
         in (Inr address_status, st1))
      else if col \<in> set [''BYD_Industries'', ''Company Industry''] then
        (let (industry_status, st1) =
               verify_industry env st v (resolve_company row_data) use_ai use_deep_search
         in (Inr industry_status, st1))
      else if use_ai then
        (let (ai_status, st1) = verify_contact_with_ai env st col v row_data use_deep_search
         in (Inr ai_status, st1))
      else (Inr Uncertain, st))"

text \<open>
  One turn of the loop of \<open>verify_data\<close>: the verdict for \<open>col\<close>. The test for an empty
  cell reads the cell before the \<open>try\<close> begins.
\<close>

definition verify_column ::
  "environment \<Rightarrow> session \<Rightarrow> row \<Rightarrow> string \<Rightarrow> bool \<Rightarrow> bool \<Rightarrow> (exn + pyval) \<times> session" where
  "verify_column env st row_data col use_ai use_deep_search =
     (case cell row_data col of
        Inl e \<Rightarrow> (Inl e, st)
      | Inr v \<Rightarrow>
          if isna v \<or> v = Str [] then (Inr Uncertain, st)
          else
            (case dispatch env st row_data col v use_ai use_deep_search of
               (Inl e, st1) \<Rightarrow> (Inr Uncertain, st1)
             | (Inr status, st1) \<Rightarrow> (Inr status, st1)))"

fun verify_columns ::
  "environment \<Rightarrow> row \<Rightarrow> bool \<Rightarrow> bool \<Rightarrow> string list \<Rightarrow> row \<Rightarrow> session
     \<Rightarrow> (exn + row) \<times> session" where
  "verify_columns env row_data use_ai use_deep_search [] verified_row st = (Inr verified_row, st)"
| "verify_columns env row_data use_ai use_deep_search (col # cols) verified_row st =
     (case verify_column env st row_data col use_ai use_deep_search of
        (Inl e, st1) \<Rightarrow> (Inl e, st1)
      | (Inr status, st1) \<Rightarrow>
          verify_columns env row_data use_ai use_deep_search cols
            (AList.update (col @ ''_status'') status verified_row) st1)"

definition verify_data ::
  "environment \<Rightarrow> session \<Rightarrow> row \<Rightarrow> string list \<Rightarrow> bool \<Rightarrow> bool \<Rightarrow> (exn + row) \<times> session" where
  "verify_data env st row_data columns_to_verify use_ai use_deep_search =
     verify_columns env row_data use_ai use_deep_search columns_to_verify row_data st"

section \<open>Sessions\<close>

text \<open>
  What a session does, one call after the other, on the shared module state: the entry
  points of the four modules.
\<close>

datatype action =
    Classify string pyval row bool
  | CheckApiStatus
  | VerifyData row "string list" bool bool
  | ValidateEmail pyval
  | GetCompanyInfo pyval pyval

fun perform :: "environment \<Rightarrow> session \<Rightarrow> action \<Rightarrow> session" where
  "perform env st (Classify field_name field_value row_data use_deep_search) =
     snd (verify_contact_with_ai env st field_name field_value row_data use_deep_search)"
| "perform env st CheckApiStatus = snd (check_api_status env st)"
| "perform env st (VerifyData row_data columns_to_verify use_ai use_deep_search) =
     snd (verify_data env st row_data columns_to_verify use_ai use_deep_search)"
| "perform env st (ValidateEmail email) = snd (validate_email env st email)"
| "perform env st (GetCompanyInfo company_name domain) =
     snd (get_company_info_from_web env st company_name domain)"

fun run :: "environment \<Rightarrow> session \<Rightarrow> action list \<Rightarrow> session" where
  "run env st [] = st"
| "run env st (a # as) = run env (perform env st a) as"

section \<open>Notions used in the properties\<close>

text \<open>The entries of a record context other than the derived verdict fields.\<close>

definition context_entries :: "row \<Rightarrow> row" where
  "context_entries row_data = filter (\<lambda>(k, v). \<not> endswith k ''_status'') row_data"

text \<open>
  The rule by which the orchestrator picks the company of a row, in words: the cell of
  \<open>Company\<close> unless the row lacks that column or the cell is missing, then the cell of
  \<open>Company Name\<close> unless the row lacks that column or the cell is missing, then \<open>None\<close>.
\<close>

definition missing :: "row \<Rightarrow> string \<Rightarrow> bool" where
  "missing row_data col = (case map_of row_data col of None \<Rightarrow> True | Some a \<Rightarrow> isna a)"

definition preferred_company :: "row \<Rightarrow> pyval \<Rightarrow> bool" where
  "preferred_company row_data company =
     (if \<not> missing row_data ''Company'' then map_of row_data ''Company'' = Some company
      else if \<not> missing row_data ''Company Name'' then
        map_of row_data ''Company Name'' = Some company
      else company = PNone)"

text \<open>
  What the two caches of the email validator record about the world. A domain cached as
  resolving did resolve at some point of the session, and one cached as not resolving
  failed both lookups; a cached verdict is the one the validator's steps give, up to
  what the lookups answered when it was computed.
\<close>

definition ever_resolves :: "environment \<Rightarrow> string \<Rightarrow> bool" where
  "ever_resolves env d = (\<exists>h. dns_resolve env h d ''MX'' \<or> dns_resolve env h d ''A'')"

definition may_fail :: "environment \<Rightarrow> string \<Rightarrow> bool" where
  "may_fail env d = ((\<exists>h. \<not> dns_resolve env h d ''MX'') \<and> (\<exists>h. \<not> dns_resolve env h d ''A''))"

definition verdict_sound :: "environment \<Rightarrow> pyval \<Rightarrow> string \<Rightarrow> bool" where
  "verdict_sound env e s =
     (if \<not> is_valid_email_syntax e then s = ''Invalid''
      else (s \<noteq> ''Uncertain'' \<longrightarrow> ever_resolves env (email_domain (py_str e))) \<and>
           (is_disposable_domain (email_domain (py_str e)) \<longrightarrow>
              s = ''Invalid'' \<or> (s = ''Uncertain'' \<and> may_fail env (email_domain (py_str e)))))"

definition email_caches_sound :: "environment \<Rightarrow> session \<Rightarrow> bool" where
  "email_caches_sound env st =
     ((\<forall>d. dns_cache st d = Some True \<longrightarrow> ever_resolves env d) \<and>
      (\<forall>d. dns_cache st d = Some False \<longrightarrow> may_fail env d) \<and>
      (\<forall>e s. validation_cache st e = Some s \<longrightarrow> verdict_sound env e s))"

text \<open>
  The steps of a session that leave the email caches alone and only add entries to the
  web cache, and the steps that may also extend the email caches soundly.
\<close>

definition web_step :: "session \<Rightarrow> session \<Rightarrow> bool" where
  "web_step st st' =
     (validation_cache st' = validation_cache st \<and> dns_cache st' = dns_cache st \<and>
      web_cache st \<subseteq>\<^sub>m web_cache st')"

definition session_step :: "environment \<Rightarrow> session \<Rightarrow> session \<Rightarrow> bool" where
  "session_step env st st' =
     (web_cache st \<subseteq>\<^sub>m web_cache st' \<and>
      (email_caches_sound env st \<longrightarrow> email_caches_sound env st'))"

section \<open>Example sessions\<close>

text \<open>
  A world in which nothing answers: every lookup and every request fails. Its character
  tables are those of ASCII, on which they agree with Python's. The examples below
  change the oracle they are about.
\<close>

definition silent_env :: environment where
  "silent_env =
     \<lparr>openai_api_key = ''sk-test'', abstract_api_key = None, serpapi_key = None,
      py_hash = (\<lambda>s. int (length s)),
      str_isalnum = isalnum,
      str_lower = (\<lambda>c. [lower_char c]),
      dns_resolve = (\<lambda>h d r. False),
      abstract_api = (\<lambda>h u. AbstractRaises),
      http_head = (\<lambda>h u. None),
      trafilatura_fetch = (\<lambda>h u. FetchRaises),
      trafilatura_extract = (\<lambda>s. ExtractRaises),
      site_get = (\<lambda>h u. None),
      serp_get = (\<lambda>h u. SerpRaises),
      ddg_get = (\<lambda>h u. None),
      openai_chat = (\<lambda>h r. AIRaises ''Connection error.'')\<rparr>"

text \<open>The provider refuses every completion request for lack of quota.\<close>

definition quota_env :: environment where
  "quota_env =
     silent_env\<lparr>openai_chat :=
       (\<lambda>h r. AIRaises ''Error code: 429 - You exceeded your current quota'')\<rparr>"

definition both_companies_row :: row where
  "both_companies_row =
     [(''First Name'', Str ''Ann''), (''Last Name'', Str ''Lee''),
      (''Company Name'', Str ''Alpha Ltd''), (''Company'', Str ''Beta Inc''),
      (''Company Domain'', Str ''betainc.com''), (''Company City'', Str ''Oslo''),
      (''Company Industry'', Str ''Mining'')]"

definition company_name_only_row :: row where
  "company_name_only_row =
     [(''Company Name'', Str ''Alpha Ltd''), (''Company'', NaN),
      (''Company Domain'', Str ''alpha.com'')]"

definition reachable_env :: environment where
  "reachable_env = silent_env\<lparr>http_head := (\<lambda>h u. Some 200)\<rparr>"

definition acme_page :: "ddg_result list" where
  "acme_page =
     [\<lparr>result_a = Some \<lparr>a_text = ''Acme Corp - Home'', a_href = ''https://acme.example/''\<rparr>,
       result_snippet = Some ''Anvils and rockets since 1949''\<rparr>]"

definition fallback_env :: environment where
  "fallback_env = silent_env\<lparr>ddg_get := (\<lambda>h u. Some acme_page)\<rparr>"

definition maybe_env :: environment where
  "maybe_env = silent_env\<lparr>openai_chat := (\<lambda>h r. AIReply (Some (Str ''Maybe'')))\<rparr>"

definition valid_env :: environment where
  "valid_env = silent_env\<lparr>openai_chat := (\<lambda>h r. AIReply (Some (Str ''Valid'')))\<rparr>"

definition acme_organic :: "serp_result list" where
  "acme_organic =
     [\<lparr>sr_title = Some (Str ''Acme Corp''), sr_snippet = Some (Str ''Anvils''),
       sr_link = Some (Str ''https://acme.example/'')\<rparr>]"

definition serp_env :: environment where
  "serp_env =
     silent_env\<lparr>serpapi_key := Some ''key'',
                serp_get := (\<lambda>h u. SerpData (Some acme_organic) None)\<rparr>"

definition job_title_row :: row where
  "job_title_row = [(''Contact Job Title'', Str ''CEO'')]"

definition phone_row :: row where
  "phone_row = [(''Company Phone'', Str ''555-0100'')]"

definition phone_row_with_verdict :: row where
  "phone_row_with_verdict = [(''Company Phone'', Str ''555-0100''), (''Email_status'', Str ''Valid'')]"



section \<open>Properties of the AI judge\<close>

lemma record_ai_error_latch: "ai_quota_exceeded st \<Longrightarrow> ai_quota_exceeded (record_ai_error msg st)"
  by (simp add: record_ai_error_def)

lemma log_call_quota [simp]: "ai_quota_exceeded (log_call c st) = ai_quota_exceeded st"
  by (simp add: log_call_def)

lemma classify_tripped:
  "ai_quota_exceeded st \<Longrightarrow> verify_contact_with_ai env st f v r d = (Uncertain, st)"
  by (simp add: verify_contact_with_ai_def Uncertain_def)

lemma check_latch: "ai_quota_exceeded st \<Longrightarrow> ai_quota_exceeded (snd (check_api_status env st))"
  by (simp add: check_api_status_def)

lemma markup_quota:
  "markup_text env st url = (r, st') \<Longrightarrow> ai_quota_exceeded st' = ai_quota_exceeded st"
  by (auto simp: markup_text_def split: option.splits)

lemma scrape_quota:
  "scrape_company_website env st d = (r, st') \<Longrightarrow> ai_quota_exceeded st' = ai_quota_exceeded st"
  by (auto simp: scrape_company_website_def Let_def dest: markup_quota
      split: fetch_outcome.splits option.splits extract_outcome.splits if_splits)

lemma serp_quota:
  "search_using_serpapi env st c k = (r, st') \<Longrightarrow> ai_quota_exceeded st' = ai_quota_exceeded st"
  by (auto simp: search_using_serpapi_def Let_def
      split: pyval.splits serp_outcome.splits option.splits)

lemma ddg_quota:
  "search_using_duckduckgo env st c = (r, st') \<Longrightarrow> ai_quota_exceeded st' = ai_quota_exceeded st"
  by (auto simp: search_using_duckduckgo_def Let_def split: option.splits)

lemma search_quota:
  "search_for_company env st c = (r, st') \<Longrightarrow> ai_quota_exceeded st' = ai_quota_exceeded st"
  by (auto simp: search_for_company_def dest: serp_quota ddg_quota split: option.splits if_splits)

lemma site_quota:
  "site_strategy env st c d = (r, st') \<Longrightarrow> ai_quota_exceeded st' = ai_quota_exceeded st"
  by (auto simp: site_strategy_def dest: scrape_quota split: pyval.splits prod.splits if_splits)

lemma gather_quota:
  "get_company_info_from_web env st c d = (r, st') \<Longrightarrow> ai_quota_exceeded st' = ai_quota_exceeded st"
  by (auto simp: get_company_info_from_web_def Let_def dest!: site_quota search_quota
      split: option.splits sum.splits prod.splits if_splits)

lemma mx_quota:
  "verify_domain_mx env st d = (r, st') \<Longrightarrow> ai_quota_exceeded st' = ai_quota_exceeded st"
  by (auto simp: verify_domain_mx_def Let_def split: option.splits if_splits)

lemma remember_quota:
  "remember e s st = (r, st') \<Longrightarrow> ai_quota_exceeded st' = ai_quota_exceeded st"
  by (auto simp: remember_def)

lemma deliverability_quota:
  "deliverability_check env st k e = (r, st') \<Longrightarrow> ai_quota_exceeded st' = ai_quota_exceeded st"
  by (auto simp: deliverability_check_def Let_def dest!: remember_quota
      split: abstract_outcome.splits if_splits)

lemma validate_quota:
  "validate_email env st e = (r, st') \<Longrightarrow> ai_quota_exceeded st' = ai_quota_exceeded st"
  by (auto simp: validate_email_def Let_def dest!: remember_quota mx_quota deliverability_quota
      split: option.splits if_splits prod.splits)

lemma name_latch:
  "verify_name_against_company env st a b c d = (res, st') \<Longrightarrow> ai_quota_exceeded st' = ai_quota_exceeded st"
  by (auto simp: verify_name_against_company_def Let_def dest!: gather_quota
      split: prod.splits sum.splits if_splits)

lemma exists_latch:
  "verify_company_exists env st c d = (res, st') \<Longrightarrow> ai_quota_exceeded st' = ai_quota_exceeded st"
  by (auto simp: verify_company_exists_def dest!: gather_quota
      split: prod.splits sum.splits if_splits)

lemma domain_latch:
  "verify_company_domain env st d c = (res, st') \<Longrightarrow> ai_quota_exceeded st' = ai_quota_exceeded st"
  by (auto simp: verify_company_domain_def Let_def
      split: pyval.splits option.splits if_splits)

lemma classify_latch:
  "verify_contact_with_ai env st f v r d = (res, st') \<Longrightarrow> ai_quota_exceeded st \<Longrightarrow> ai_quota_exceeded st'"
  by (simp add: classify_tripped)

lemma address_latch:
  assumes "verify_address_component env st t v c r u d = (res, st')" and "ai_quota_exceeded st"
  shows "ai_quota_exceeded st'"
proof (cases "present c")
  case False
  with assms show ?thesis by (simp add: verify_address_component_def)
next
  case True
  obtain g st1 where g: "get_company_info_from_web env st c PNone = (g, st1)"
    by (cases "get_company_info_from_web env st c PNone")
  have q: "ai_quota_exceeded st1" using gather_quota[OF g] assms(2) by simp
  show ?thesis
  proof (cases g)
    case (Inl e)
    with assms(1) True g q show ?thesis by (simp add: verify_address_component_def)
  next
    case (Inr info)
    with assms(1) True g q show ?thesis
      by (auto simp add: verify_address_component_def Let_def classify_tripped
          simp del: list.set split: if_splits option.splits)
  qed
qed

lemma industry_latch:
  assumes "verify_industry env st i c u d = (res, st')" and "ai_quota_exceeded st"
  shows "ai_quota_exceeded st'"
proof (cases "present c")
  case False
  with assms show ?thesis by (simp add: verify_industry_def)
next
  case True
  obtain g st1 where g: "get_company_info_from_web env st c PNone = (g, st1)"
    by (cases "get_company_info_from_web env st c PNone")
  have q: "ai_quota_exceeded st1" using gather_quota[OF g] assms(2) by simp
  show ?thesis using assms(1) True g q
    by (cases g) (auto simp add: verify_industry_def classify_tripped split: if_splits)
qed

lemma dispatch_latch:
  assumes "dispatch env st row col v u d = (res, st')" and "ai_quota_exceeded st"
  shows "ai_quota_exceeded st'"
  using assms
  by (auto simp add: dispatch_def Let_def classify_tripped simp del: list.set
      dest!: validate_quota name_latch exists_latch domain_latch
      dest: address_latch industry_latch
      split: prod.splits sum.splits if_splits)

lemma column_latch:
  "verify_column env st row col u d = (res, st') \<Longrightarrow> ai_quota_exceeded st \<Longrightarrow> ai_quota_exceeded st'"
  by (auto simp: verify_column_def dest: dispatch_latch split: prod.splits sum.splits if_splits)

lemma columns_latch:
  "verify_columns env row u d cols vrow st = (res, st') \<Longrightarrow> ai_quota_exceeded st
     \<Longrightarrow> ai_quota_exceeded st'"
proof (induction cols arbitrary: vrow st)
  case Nil
  then show ?case by simp
next
  case (Cons col cols)
  obtain r st1 where c: "verify_column env st row col u d = (r, st1)"
    by (cases "verify_column env st row col u d")
  have q: "ai_quota_exceeded st1" using column_latch[OF c] Cons.prems(2) .
  show ?case
  proof (cases r)
    case (Inl e)
    with Cons.prems(1) c q show ?thesis by simp
  next
    case (Inr status)
    with Cons.prems(1) c have
      "verify_columns env row u d cols (AList.update (col @ ''_status'') status vrow) st1 = (res, st')"
      by simp
    from Cons.IH[OF this q] show ?thesis .
  qed
qed

lemma perform_latch: "ai_quota_exceeded st \<Longrightarrow> ai_quota_exceeded (perform env st a)"
proof (cases a)
  case (Classify f v r d)
  assume "ai_quota_exceeded st"
  then show ?thesis using Classify by (simp add: classify_tripped)
next
  case CheckApiStatus
  assume "ai_quota_exceeded st"
  then show ?thesis using CheckApiStatus by (simp add: check_latch)
next
  case (VerifyData row cols u d)
  assume q: "ai_quota_exceeded st"
  obtain r st' where v: "verify_columns env row u d cols row st = (r, st')"
    by (cases "verify_columns env row u d cols row st")
  from columns_latch[OF v q] show ?thesis using VerifyData v by (simp add: verify_data_def)
next
  case (ValidateEmail e)
  assume q: "ai_quota_exceeded st"
  obtain r st' where v: "validate_email env st e = (r, st')" by (cases "validate_email env st e")
  from validate_quota[OF v] q show ?thesis using ValidateEmail v by simp
next
  case (GetCompanyInfo c d)
  assume q: "ai_quota_exceeded st"
  obtain r st' where v: "get_company_info_from_web env st c d = (r, st')"
    by (cases "get_company_info_from_web env st c d")
  from gather_quota[OF v] q show ?thesis using GetCompanyInfo v by simp
qed

lemma run_latch: "ai_quota_exceeded st \<Longrightarrow> ai_quota_exceeded (run env st acts)"
  by (induction acts arbitrary: st) (simp_all add: perform_latch)

lemma classify_failure_trips:
  assumes "openai_api_key env \<noteq> []" "\<not> ai_quota_exceeded st"
    "ai_cache st (cache_key env f v r d) = None"
    "openai_chat env (trace st) (verification_request f v r d) = AIRaises msg"
    "quota_signature msg \<or> api_key_signature msg"
  shows "ai_quota_exceeded (snd (verify_contact_with_ai env st f v r d))"
  using assms by (auto simp: verify_contact_with_ai_def Let_def record_ai_error_def)

text \<open>
  Claim C3. The quota breaker is a one-way latch. When a classification call fails with
  an error text that carries a quota, insufficient-balance or API-key signature, the
  breaker is tripped; it is still tripped after any further actions of the session, and
  every later classification, for any field and record, answers \<open>Uncertain\<close> and leaves
  the whole session state, the trace of external calls included, as it was.
\<close>

theorem breaker_latch:
  assumes "openai_api_key env \<noteq> []" and "\<not> ai_quota_exceeded st"
    and "ai_cache st (cache_key env f v r d) = None"
    and "openai_chat env (trace st) (verification_request f v r d) = AIRaises msg"
    and "quota_signature msg \<or> api_key_signature msg"
    and "st1 = snd (verify_contact_with_ai env st f v r d)"
    and "st2 = run env st1 acts"
  shows "ai_quota_exceeded st1 \<and> ai_quota_exceeded st2
         \<and> verify_contact_with_ai env st2 f' v' r' d' = (Uncertain, st2)"
proof -
  have t: "ai_quota_exceeded st1" using classify_failure_trips[OF assms(1-5)] assms(6) by simp
  then have "ai_quota_exceeded st2" using assms(7) by (simp add: run_latch)
  with t show ?thesis by (simp add: classify_tripped)
qed

theorem breaker_latch_witness:
  "ai_quota_exceeded
     (snd (verify_contact_with_ai quota_env init_session ''Company Phone'' (Str ''555-0100'')
             [(''Company Phone'', Str ''555-0100'')] False))
   \<and> verify_contact_with_ai quota_env
         (run quota_env
            (snd (verify_contact_with_ai quota_env init_session ''Company Phone''
                    (Str ''555-0100'') [(''Company Phone'', Str ''555-0100'')] False))
            [CheckApiStatus, ValidateEmail (Str ''not-an-email'')])
         ''Contact Job Title'' (Str ''CEO'') [(''Contact Job Title'', Str ''CEO'')] True
       = (Uncertain,
          run quota_env
            (snd (verify_contact_with_ai quota_env init_session ''Company Phone''
                    (Str ''555-0100'') [(''Company Phone'', Str ''555-0100'')] False))
            [CheckApiStatus, ValidateEmail (Str ''not-an-email'')])"
proof -
  have k: "openai_api_key quota_env \<noteq> []" by (simp add: quota_env_def silent_env_def)
  have q: "\<not> ai_quota_exceeded init_session" by (simp add: init_session_def)
  have c: "ai_cache init_session (cache_key quota_env ''Company Phone'' (Str ''555-0100'')
             [(''Company Phone'', Str ''555-0100'')] False) = None"
    by (simp add: init_session_def)
  have r: "openai_chat quota_env (trace init_session)
             (verification_request ''Company Phone'' (Str ''555-0100'')
                [(''Company Phone'', Str ''555-0100'')] False)
           = AIRaises ''Error code: 429 - You exceeded your current quota''"
    by (simp add: quota_env_def silent_env_def)
  have s: "quota_signature ''Error code: 429 - You exceeded your current quota''
           \<or> api_key_signature ''Error code: 429 - You exceeded your current quota''"
    by (simp add: quota_signature_def py_in_def py_lower_def lower_char_def sublist_code)
  from breaker_latch [OF k q c r s refl refl] show ?thesis by blast
qed

section \<open>Properties of the AI judge's cache\<close>

text \<open>
  Claim C1. The judge returns and caches whatever the reply holds under \<open>status\<close>:
  a reply whose status is \<open>Maybe\<close> makes \<open>verify_contact_with_ai\<close> return \<open>Maybe\<close>, store
  it in the cache, and \<open>verify_data\<close> commit it to the verdict column. The verdict is then
  none of \<open>Valid\<close>, \<open>Uncertain\<close>, \<open>Invalid\<close>.
\<close>

theorem unrecognized_status_committed:
  "fst (verify_contact_with_ai maybe_env init_session ''Contact Job Title'' (Str ''CEO'')
          job_title_row False)
     = Str ''Maybe''
   \<and> ai_cache
         (snd (verify_contact_with_ai maybe_env init_session ''Contact Job Title'' (Str ''CEO'')
                 job_title_row False))
         (cache_key maybe_env ''Contact Job Title'' (Str ''CEO'') job_title_row False)
     = Some (Str ''Maybe'')
   \<and> fst (verify_data maybe_env init_session job_title_row [''Contact Job Title''] True False)
     = Inr [(''Contact Job Title'', Str ''CEO''), (''Contact Job Title_status'', Str ''Maybe'')]"
  by (simp add: verify_contact_with_ai_def maybe_env_def silent_env_def init_session_def
      log_call_def Let_def verify_data_def verify_column_def cell_def job_title_row_def
      dispatch_def address_columns_def)

text \<open>
  Claim C7, as stated, fails. Two contexts that differ only in an entry whose key ends in
  \<open>_status\<close> serialise differently, so under a hash that tells the two serialisations
  apart their cache keys differ and the second classification is a second external call.
\<close>

theorem status_entries_change_cache_key:
  "context_entries phone_row
     = context_entries phone_row_with_verdict
   \<and> cache_key valid_env ''Company Phone'' (Str ''555-0100'') phone_row False
       \<noteq> cache_key valid_env ''Company Phone'' (Str ''555-0100'') phone_row_with_verdict False
   \<and> length (trace (snd (verify_contact_with_ai valid_env init_session ''Company Phone''
                           (Str ''555-0100'') phone_row False))) = 1
   \<and> length (trace (snd (verify_contact_with_ai valid_env
                           (snd (verify_contact_with_ai valid_env init_session ''Company Phone''
                                   (Str ''555-0100'') phone_row False))
                           ''Company Phone'' (Str ''555-0100'') phone_row_with_verdict False))) = 2"
  by code_simp

lemma context_lines_filter:
  assumes "context_entries r
             = context_entries r'"
  shows "context_lines f r = context_lines f r'"
proof -
  have e: "filter (\<lambda>(k, v). k \<noteq> f \<and> \<not> endswith k ''_status'') x
          = filter (\<lambda>(k, v). k \<noteq> f) (context_entries x)"
    for x :: row
    by (induction x) (auto simp: context_entries_def)
  show ?thesis unfolding context_lines_def e using assms by simp
qed

text \<open>
  Claim C7, amended. The cache key is made of the field name, the field value, the hash
  of the serialisation of the whole context (verdict entries included) and the deep-mode
  flag. After a classification that was answered, a classification whose key is the same
  returns the same status and leaves the session state, the trace included, as it was.
  Entries whose keys end in \<open>_status\<close> are left out of the prompt only: contexts that
  agree on all other entries give the same prompt.
\<close>

theorem cache_hit_on_same_key:
  assumes "openai_api_key env \<noteq> []" and "\<not> ai_quota_exceeded st"
    and "openai_chat env (trace st) (verification_request f v r d) = AIReply reply"
    and "verify_contact_with_ai env st f v r d = (status, st1)"
  shows "(cache_key env f v r' d = cache_key env f v r d
            \<longrightarrow> verify_contact_with_ai env st1 f v r' d = (status, st1))
       \<and> (context_entries r
             = context_entries r'
            \<longrightarrow> create_verification_prompt f v r d = create_verification_prompt f v r' d)"
proof (intro conjI impI)
  assume k: "cache_key env f v r' d = cache_key env f v r d"
  show "verify_contact_with_ai env st1 f v r' d = (status, st1)"
  proof (cases "ai_cache st (cache_key env f v r d)")
    case (Some cached)
    with assms k show ?thesis by (auto simp: verify_contact_with_ai_def)
  next
    case None
    with assms k show ?thesis
      by (auto simp: verify_contact_with_ai_def Let_def log_call_def)
  qed
next
  assume "context_entries r
             = context_entries r'"
  then show "create_verification_prompt f v r d = create_verification_prompt f v r' d"
    by (simp add: create_verification_prompt_def context_lines_filter[of r r'])
qed

theorem cache_hit_on_same_key_witness:
  "verify_contact_with_ai valid_env
     (snd (verify_contact_with_ai valid_env init_session ''Company Phone'' (Str ''555-0100'')
             phone_row False))
     ''Company Phone'' (Str ''555-0100'') phone_row False
   = (Str ''Valid'',
      snd (verify_contact_with_ai valid_env init_session ''Company Phone'' (Str ''555-0100'')
             phone_row False))
   \<and> create_verification_prompt ''Company Phone'' (Str ''555-0100'') phone_row False
     = create_verification_prompt ''Company Phone'' (Str ''555-0100'') phone_row_with_verdict False"
proof -
  have k: "openai_api_key valid_env \<noteq> []" by (simp add: valid_env_def silent_env_def)
  have q: "\<not> ai_quota_exceeded init_session" by (simp add: init_session_def)
  have r: "openai_chat valid_env (trace init_session)
             (verification_request ''Company Phone'' (Str ''555-0100'') phone_row False)
           = AIReply (Some (Str ''Valid''))"
    by (simp add: valid_env_def silent_env_def)
  have c: "verify_contact_with_ai valid_env init_session ''Company Phone'' (Str ''555-0100'')
             phone_row False
           = (Str ''Valid'', snd (verify_contact_with_ai valid_env init_session ''Company Phone''
                (Str ''555-0100'') phone_row False))"
    by (simp add: verify_contact_with_ai_def valid_env_def silent_env_def init_session_def Let_def)
  have f: "context_entries phone_row
     = context_entries phone_row_with_verdict"
    by code_simp
  note t = cache_hit_on_same_key [OF k q r c, where r' = phone_row]
  note u = cache_hit_on_same_key [OF k q r c, where r' = phone_row_with_verdict]
  from t [THEN conjunct1, THEN mp, OF refl] u [THEN conjunct2, THEN mp, OF f]
  show ?thesis by simp
qed

section \<open>Properties of the web evidence gatherer\<close>

text \<open>
  Claim C10. For a company name that is false in a condition (\<open>None\<close>, the empty string)
  and any domain, the gatherer returns the empty string and the session state is the
  one it was called in: no request is made and no cache entry is written.
\<close>

theorem empty_company_no_gather:
  assumes "\<not> truthy company_name"
  shows "get_company_info_from_web env st company_name domain = (Inr [], st)"
  using assms by (simp add: get_company_info_from_web_def)

theorem empty_company_no_gather_witness:
  "get_company_info_from_web silent_env init_session PNone (Str ''acme.com'') = (Inr [], init_session)
   \<and> get_company_info_from_web silent_env init_session (Str []) PNone = (Inr [], init_session)"
  using empty_company_no_gather [of PNone silent_env init_session "Str ''acme.com''"]
    empty_company_no_gather [of "Str []" silent_env init_session PNone]
  by simp

lemma site_strategy_strings:
  assumes "domain = PNone \<or> (\<exists>d. domain = Str d)"
  shows "\<exists>info st1. site_strategy env st (Str c) domain = (Inr info, st1)"
  using assms by (auto simp: site_strategy_def split: prod.splits)

lemma gather_cached:
  assumes "truthy company_name" "web_cache st (web_cache_key company_name domain) = Some text"
  shows "get_company_info_from_web env st company_name domain = (Inr text, st)"
  using assms by (simp add: get_company_info_from_web_def)

lemma gather_returns_cached:
  assumes "get_company_info_from_web env st company_name domain = (Inr text, st1)"
    and "truthy company_name"
  shows "web_cache st1 (web_cache_key company_name domain) = Some text"
  using assms
  by (auto simp: get_company_info_from_web_def Let_def
      split: option.splits prod.splits sum.splits if_splits)

lemma gather_again:
  assumes "get_company_info_from_web env st company_name domain = (Inr text, st1)"
  shows "get_company_info_from_web env st1 company_name domain = (Inr text, st1)"
proof (cases "truthy company_name")
  case False
  with assms show ?thesis by (simp add: get_company_info_from_web_def)
next
  case True
  from gather_returns_cached[OF assms True] True show ?thesis by (rule gather_cached[rotated])
qed

lemma gather_strings_total:
  assumes "domain = PNone \<or> (\<exists>d. domain = Str d)"
  shows "\<exists>text st1. get_company_info_from_web env st (Str c) domain = (Inr text, st1)"
proof -
  obtain info st1 where s: "site_strategy env st (Str c) domain = (Inr info, st1)"
    using site_strategy_strings[OF assms] by blast
  show ?thesis
    by (auto simp: get_company_info_from_web_def s Let_def split: option.splits prod.splits)
qed

lemma py_in_refl [simp]: "py_in a a"
  by (simp add: py_in_def)

lemma py_in_append_left: "py_in a b \<Longrightarrow> py_in a (c @ b)"
  unfolding py_in_def sublist_def by (metis append.assoc)

lemma py_in_append_right: "py_in a b \<Longrightarrow> py_in a (b @ c)"
  unfolding py_in_def sublist_def by (metis append.assoc)

lemma py_in_concat: "x \<in> set xs \<Longrightarrow> py_in (f x) (concat (map f xs))"
proof (induction xs)
  case Nil
  then show ?case by simp
next
  case (Cons y ys)
  then show ?case by (auto intro: py_in_append_left py_in_append_right)
qed

lemma py_in_trans: "py_in a b \<Longrightarrow> py_in b c \<Longrightarrow> py_in a c"
  unfolding py_in_def by (rule sublist_order.order_trans)

lemma py_in_char: "py_in [c] s \<longleftrightarrow> c \<in> set s"
  by (induction s) (auto simp: py_in_def sublist_Cons_right)

lemma serp_text_parts:
  "py_in (get_or_empty (sr_title r)) (serp_result_text r)"
  "py_in (get_or_empty (sr_snippet r)) (serp_result_text r)"
  "py_in (get_or_empty (sr_link r)) (serp_result_text r)"
  unfolding serp_result_text_def
  by (intro py_in_append_left py_in_append_right py_in_refl)+

lemma ddg_text_parts:
  "py_in (case result_a r of None \<Rightarrow> ''No title'' | Some title_elem \<Rightarrow> a_text title_elem)
     (ddg_result_text r)"
  "py_in (case result_snippet r of None \<Rightarrow> ''No snippet'' | Some snippet \<Rightarrow> snippet)
     (ddg_result_text r)"
  unfolding ddg_result_text_def
  by (intro py_in_append_left py_in_append_right py_in_refl)+

text \<open>
  Claim C6, as stated, fails for the public search page: the text built from it holds
  the title and the snippet of a result, and not its link.
\<close>

theorem fallback_evidence_lacks_link:
  "fst (search_for_company fallback_env init_session (Str ''Acme''))
     = ''Acme Corp - Home\<newline>Anvils and rockets since 1949\<newline>\<newline>''
   \<and> \<not> py_in ''https://acme.example/''
         (fst (search_for_company fallback_env init_session (Str ''Acme'')))"
  by code_simp

text \<open>
  Claim C6, amended. With the search API, the evidence text holds the title, the snippet
  and the link of each of the first three organic results (the empty string for a member
  the result lacks). With the public search page, the evidence text is, for the first
  three results in order, the title text and the snippet text (\<open>No title\<close> and
  \<open>No snippet\<close> for a missing element), each followed by a newline; the link of a
  result is not part of it.
\<close>

theorem search_evidence_contents:
  "(serp_get env (trace st)
        (''https://serpapi.com/search.json?q='' @ quote name @ ''&api_key='' @ api_key)
      = SerpData (Some results) kg \<and> r \<in> set (take 3 results)
    \<longrightarrow> py_in (get_or_empty (sr_title r)) (fst (search_using_serpapi env st (Str name) api_key))
      \<and> py_in (get_or_empty (sr_snippet r)) (fst (search_using_serpapi env st (Str name) api_key))
      \<and> py_in (get_or_empty (sr_link r)) (fst (search_using_serpapi env st (Str name) api_key)))
   \<and> (ddg_get env (trace st)
          (''https://html.duckduckgo.com/html/?q=''
             @ quote (py_str company_name @ '' company information''))
        = Some page
      \<longrightarrow> fst (search_using_duckduckgo env st company_name)
            = concat (map ddg_result_text (take 3 page))
        \<and> (\<forall>p \<in> set (take 3 page).
              py_in (case result_a p of None \<Rightarrow> ''No title'' | Some title_elem \<Rightarrow> a_text title_elem)
                (fst (search_using_duckduckgo env st company_name))
            \<and> py_in (case result_snippet p of None \<Rightarrow> ''No snippet'' | Some snippet \<Rightarrow> snippet)
                (fst (search_using_duckduckgo env st company_name))))"
proof (intro conjI impI)
  assume a: "serp_get env (trace st)
        (''https://serpapi.com/search.json?q='' @ quote name @ ''&api_key='' @ api_key)
      = SerpData (Some results) kg \<and> r \<in> set (take 3 results)"
  then have t: "fst (search_using_serpapi env st (Str name) api_key)
      = concat (map serp_result_text (take 3 results))
        @ (case kg of None \<Rightarrow> [] | Some g \<Rightarrow> knowledge_graph_text g)"
    by (simp add: search_using_serpapi_def Let_def)
  have c: "py_in (serp_result_text r) (fst (search_using_serpapi env st (Str name) api_key))"
    unfolding t using a by (intro py_in_append_right py_in_concat) simp
  show "py_in (get_or_empty (sr_title r)) (fst (search_using_serpapi env st (Str name) api_key))"
    using serp_text_parts(1) c by (rule py_in_trans)
  show "py_in (get_or_empty (sr_snippet r)) (fst (search_using_serpapi env st (Str name) api_key))"
    using serp_text_parts(2) c by (rule py_in_trans)
  show "py_in (get_or_empty (sr_link r)) (fst (search_using_serpapi env st (Str name) api_key))"
    using serp_text_parts(3) c by (rule py_in_trans)
next
  assume a: "ddg_get env (trace st)
          (''https://html.duckduckgo.com/html/?q=''
             @ quote (py_str company_name @ '' company information''))
        = Some page"
  then show t: "fst (search_using_duckduckgo env st company_name)
            = concat (map ddg_result_text (take 3 page))"
    by (simp add: search_using_duckduckgo_def Let_def)
  show "\<forall>p \<in> set (take 3 page).
              py_in (case result_a p of None \<Rightarrow> ''No title'' | Some title_elem \<Rightarrow> a_text title_elem)
                (fst (search_using_duckduckgo env st company_name))
            \<and> py_in (case result_snippet p of None \<Rightarrow> ''No snippet'' | Some snippet \<Rightarrow> snippet)
                (fst (search_using_duckduckgo env st company_name))"
  proof
    fix p assume p: "p \<in> set (take 3 page)"
    have c: "py_in (ddg_result_text p) (fst (search_using_duckduckgo env st company_name))"
      unfolding t using p by (rule py_in_concat)
    show "py_in (case result_a p of None \<Rightarrow> ''No title'' | Some title_elem \<Rightarrow> a_text title_elem)
                (fst (search_using_duckduckgo env st company_name))
            \<and> py_in (case result_snippet p of None \<Rightarrow> ''No snippet'' | Some snippet \<Rightarrow> snippet)
                (fst (search_using_duckduckgo env st company_name))"
      using py_in_trans[OF ddg_text_parts(1) c] py_in_trans[OF ddg_text_parts(2) c] by simp
  qed
qed

theorem search_evidence_contents_witness:
  "py_in ''https://acme.example/''
     (fst (search_using_serpapi serp_env init_session (Str ''Acme'') ''key''))
   \<and> fst (search_using_duckduckgo fallback_env init_session (Str ''Acme''))
       = concat (map ddg_result_text (take 3 acme_page))
   \<and> py_in ''Acme Corp - Home'' (fst (search_using_duckduckgo fallback_env init_session (Str ''Acme'')))"
proof -
  have s: "serp_get serp_env (trace init_session)
        (''https://serpapi.com/search.json?q='' @ quote ''Acme'' @ ''&api_key='' @ ''key'')
      = SerpData (Some acme_organic) None"
    by (simp add: serp_env_def silent_env_def)
  have r: "\<lparr>sr_title = Some (Str ''Acme Corp''), sr_snippet = Some (Str ''Anvils''),
       sr_link = Some (Str ''https://acme.example/'')\<rparr> \<in> set (take 3 acme_organic)"
    by (simp add: acme_organic_def)
  have d: "ddg_get fallback_env (trace init_session)
          (''https://html.duckduckgo.com/html/?q=''
             @ quote (py_str (Str ''Acme'') @ '' company information''))
        = Some acme_page"
    by (simp add: fallback_env_def silent_env_def)
  have p: "\<lparr>result_a = Some \<lparr>a_text = ''Acme Corp - Home'', a_href = ''https://acme.example/''\<rparr>,
       result_snippet = Some ''Anvils and rockets since 1949''\<rparr> \<in> set (take 3 acme_page)"
    by (simp add: acme_page_def)
  note serp = search_evidence_contents
    [where env = serp_env and st = init_session and name = "''Acme''" and api_key = "''key''"
       and results = acme_organic and kg = None
       and r = "\<lparr>sr_title = Some (Str ''Acme Corp''), sr_snippet = Some (Str ''Anvils''),
          sr_link = Some (Str ''https://acme.example/'')\<rparr>",
     THEN conjunct1, THEN mp, OF conjI [OF s r]]
  then have a: "py_in ''https://acme.example/''
     (fst (search_using_serpapi serp_env init_session (Str ''Acme'') ''key''))"
    by (simp add: get_or_empty_def)
  note ddg = search_evidence_contents
    [where env = fallback_env and st = init_session and company_name = "Str ''Acme''"
       and page = acme_page, THEN conjunct2, THEN mp, OF d]
  from ddg [THEN conjunct2, THEN bspec, OF p]
  have b: "py_in ''Acme Corp - Home''
     (fst (search_using_duckduckgo fallback_env init_session (Str ''Acme'')))"
    by simp
  from a ddg [THEN conjunct1] b show ?thesis by simp
qed

section \<open>Properties of the orchestrator\<close>

text \<open>
  Claim C8, as stated, fails. In a row where \<open>Company Name\<close> is \<open>Alpha Ltd\<close> and
  \<open>Company\<close> is \<open>Beta Inc\<close>, \<open>verify_data\<close> searches for \<open>Beta Inc\<close> when it verifies the
  first name, the city and the industry, and it finds the domain \<open>betainc.com\<close>, once
  reachable, \<open>Valid\<close>, which it is for \<open>Beta Inc\<close> and not for \<open>Alpha Ltd\<close>.
\<close>

theorem company_name_not_preferred:
  "trace (snd (verify_data silent_env init_session both_companies_row [''First Name''] False False))
     = [TrafilaturaFetch ''https://betainc.com'',
        HttpGet ''https://html.duckduckgo.com/html/?q=Beta%20Inc%20company%20information'']
   \<and> trace (snd (verify_data silent_env init_session both_companies_row [''Company City'']
                   False False))
     = [HttpGet ''https://html.duckduckgo.com/html/?q=Beta%20Inc%20company%20information'']
   \<and> trace (snd (verify_data silent_env init_session both_companies_row [''Company Industry'']
                   False False))
     = [HttpGet ''https://html.duckduckgo.com/html/?q=Beta%20Inc%20company%20information'']
   \<and> map_of (projr (fst (verify_data reachable_env init_session both_companies_row
                             [''Company Domain''] False False)))
         ''Company Domain_status''
     = Some (Str ''Valid'')
   \<and> fst (verify_company_domain reachable_env init_session (Str ''betainc.com'') (Str ''Alpha Ltd''))
     = Str ''Uncertain''"
  by code_simp

lemma preferred_resolve: "preferred_company row_data company \<Longrightarrow> resolve_company row_data = company"
  unfolding preferred_company_def missing_def resolve_company_def
  by (cases "map_of row_data ''Company''"; cases "map_of row_data ''Company Name''")
     (simp_all split: if_splits)

lemma column_dispatch:
  assumes "map_of row_data col = Some x" and "\<not> isna x" and "x \<noteq> Str []"
  shows "verify_column env st row_data col use_ai use_deep_search
           = (case dispatch env st row_data col x use_ai use_deep_search of
                (Inl e, st1) \<Rightarrow> (Inr Uncertain, st1)
              | (Inr status, st1) \<Rightarrow> (Inr status, st1))"
  using assms by (simp add: verify_column_def cell_def)

lemma dispatch_domain:
  "dispatch env st row_data ''Company Domain'' x use_ai use_deep_search
     = (case verify_company_domain env st x (resolve_company row_data) of
          (status, st1) \<Rightarrow> (Inr status, st1))"
  by (simp add: dispatch_def)

lemma dispatch_names:
  assumes "col = ''First Name'' \<or> col = ''Last Name''"
    and "map_of row_data ''First Name'' = Some first_name"
    and "map_of row_data ''Last Name'' = Some last_name"
  shows "dispatch env st row_data col x use_ai use_deep_search
     = (if truthy (resolve_company row_data) then
          (case verify_name_against_company env st first_name last_name (resolve_company row_data)
                  (company_domain_of row_data) of
             (status, st1) \<Rightarrow> (Inr status, st1))
        else (Inr Uncertain, st))"
  using assms by (auto simp: dispatch_def cell_def)

lemma dispatch_address:
  assumes "col \<in> set address_columns"
  shows "dispatch env st row_data col x use_ai use_deep_search
     = (case verify_address_component env st col x (resolve_company row_data) (Some row_data)
               use_ai use_deep_search of
          (status, st1) \<Rightarrow> (Inr status, st1))"
proof -
  from assms have c: "col \<noteq> ''Email''" "col \<notin> set [''First Name'', ''Last Name'']"
    "col \<notin> set [''Company'', ''Company Name'']" "col \<noteq> ''Company Domain''"
    by (auto simp: address_columns_def)
  show ?thesis using assms c by (simp add: dispatch_def del: list.set)
qed

lemma dispatch_industry:
  assumes "col \<in> set [''BYD_Industries'', ''Company Industry'']"
  shows "dispatch env st row_data col x use_ai use_deep_search
     = (case verify_industry env st x (resolve_company row_data) use_ai use_deep_search of
          (status, st1) \<Rightarrow> (Inr status, st1))"
proof -
  from assms have c: "col \<noteq> ''Email''" "col \<notin> set [''First Name'', ''Last Name'']"
    "col \<notin> set [''Company'', ''Company Name'']" "col \<noteq> ''Company Domain''"
    "col \<notin> set address_columns"
    by (auto simp: address_columns_def)
  show ?thesis using assms c by (simp add: dispatch_def del: list.set)
qed

text \<open>
  Claim C8, amended. For the company that the rule of preference gives (\<open>Company\<close>
  first, \<open>Company Name\<close> as the fallback), and a requested column whose cell is neither
  missing nor empty: the turn of the loop of \<open>verify_data\<close> for a person-name column is
  the name check against that company, when it is true in a condition, and \<open>Uncertain\<close>
  otherwise; for the company-domain column it is the domain check against that company;
  for an address column the address check against it; for an industry column the
  industry check against it.
\<close>

theorem company_column_preferred:
  assumes "preferred_company row_data company"
    and "map_of row_data col = Some x" and "\<not> isna x" and "x \<noteq> Str []"
  shows "(col \<in> set [''First Name'', ''Last Name'']
            \<and> map_of row_data ''First Name'' = Some first_name
            \<and> map_of row_data ''Last Name'' = Some last_name
          \<longrightarrow> verify_column env st row_data col use_ai use_deep_search
              = (if truthy company then
                   (case verify_name_against_company env st first_name last_name company
                           (company_domain_of row_data) of
                      (status, st1) \<Rightarrow> (Inr status, st1))
                 else (Inr Uncertain, st)))
       \<and> (col = ''Company Domain''
          \<longrightarrow> verify_column env st row_data col use_ai use_deep_search
              = (case verify_company_domain env st x company of
                   (status, st1) \<Rightarrow> (Inr status, st1)))
       \<and> (col \<in> set address_columns
          \<longrightarrow> verify_column env st row_data col use_ai use_deep_search
              = (case verify_address_component env st col x company (Some row_data) use_ai
                        use_deep_search of
                   (status, st1) \<Rightarrow> (Inr status, st1)))
       \<and> (col \<in> set [''BYD_Industries'', ''Company Industry'']
          \<longrightarrow> verify_column env st row_data col use_ai use_deep_search
              = (case verify_industry env st x company use_ai use_deep_search of
                   (status, st1) \<Rightarrow> (Inr status, st1)))"
proof -
  note r = preferred_resolve [OF assms(1)]
  note c = column_dispatch [OF assms(2-4), of env st use_ai use_deep_search]
  have names: "verify_column env st row_data col use_ai use_deep_search
              = (if truthy company then
                   (case verify_name_against_company env st first_name last_name company
                           (company_domain_of row_data) of
                      (status, st1) \<Rightarrow> (Inr status, st1))
                 else (Inr Uncertain, st))"
    if "col \<in> set [''First Name'', ''Last Name'']
            \<and> map_of row_data ''First Name'' = Some first_name
            \<and> map_of row_data ''Last Name'' = Some last_name"
  proof -
    from that have n: "col = ''First Name'' \<or> col = ''Last Name''"
      and f: "map_of row_data ''First Name'' = Some first_name"
      and l: "map_of row_data ''Last Name'' = Some last_name"
      by simp_all
    show ?thesis
      unfolding c dispatch_names [OF n f l] r by (simp split: prod.splits)
  qed
  have dom: "verify_column env st row_data col use_ai use_deep_search
              = (case verify_company_domain env st x company of
                   (status, st1) \<Rightarrow> (Inr status, st1))"
    if "col = ''Company Domain''"
    unfolding c unfolding that dispatch_domain r by (simp split: prod.splits)
  have addr: "verify_column env st row_data col use_ai use_deep_search
              = (case verify_address_component env st col x company (Some row_data) use_ai
                        use_deep_search of
                   (status, st1) \<Rightarrow> (Inr status, st1))"
    if "col \<in> set address_columns"
    unfolding c dispatch_address [OF that] r by (simp split: prod.splits)
  have ind: "verify_column env st row_data col use_ai use_deep_search
              = (case verify_industry env st x company use_ai use_deep_search of
                   (status, st1) \<Rightarrow> (Inr status, st1))"
    if "col \<in> set [''BYD_Industries'', ''Company Industry'']"
    unfolding c dispatch_industry [OF that] r by (simp split: prod.splits)
  from names dom addr ind show ?thesis by blast
qed

theorem company_column_preferred_witness:
  "verify_column silent_env init_session both_companies_row ''Company Industry'' False False
     = (case verify_industry silent_env init_session (Str ''Mining'') (Str ''Beta Inc'') False False of
          (status, st1) \<Rightarrow> (Inr status, st1))
   \<and> verify_column silent_env init_session company_name_only_row ''Company Domain'' False False
     = (case verify_company_domain silent_env init_session (Str ''alpha.com'') (Str ''Alpha Ltd'') of
          (status, st1) \<Rightarrow> (Inr status, st1))"
proof -
  have p: "preferred_company both_companies_row (Str ''Beta Inc'')"
    by (simp add: preferred_company_def missing_def both_companies_row_def)
  have c: "map_of both_companies_row ''Company Industry'' = Some (Str ''Mining'')"
    by (simp add: both_companies_row_def)
  have q: "preferred_company company_name_only_row (Str ''Alpha Ltd'')"
    by (simp add: preferred_company_def missing_def company_name_only_row_def)
  have e: "map_of company_name_only_row ''Company Domain'' = Some (Str ''alpha.com'')"
    by (simp add: company_name_only_row_def)
  have m: "''Company Industry'' \<in> set [''BYD_Industries'', ''Company Industry'']" by simp
  note a = company_column_preferred [OF p c, where env = silent_env and st = init_session
      and use_ai = False and use_deep_search = False,
      THEN conjunct2, THEN conjunct2, THEN conjunct2, THEN mp, OF _ _ m]
  note b = company_column_preferred [OF q e, where env = silent_env and st = init_session
      and use_ai = False and use_deep_search = False,
      THEN conjunct2, THEN conjunct1, THEN mp, OF _ _ refl]
  from a b show ?thesis by simp
qed

text \<open>
  Claim C5, as stated, fails. A domain with a tab in it has whitespace and passes the
  format check: the probe of such a host raises and the verdict is \<open>Uncertain\<close>, not
  \<open>Invalid\<close>. And the empty domain, which has no dot, is \<open>Uncertain\<close>.
\<close>

theorem tab_in_domain_not_invalid:
  "fst (verify_company_domain silent_env init_session (Str (''acme'' @ [CHR 0x09] @ ''corp.com'')) PNone)
     = Str ''Uncertain''
   \<and> trace (snd (verify_company_domain silent_env init_session
                   (Str (''acme'' @ [CHR 0x09] @ ''corp.com'')) PNone))
     = [HttpHead (''https://acme'' @ [CHR 0x09] @ ''corp.com'')]
   \<and> fst (verify_company_domain silent_env init_session (Str []) PNone) = Str ''Uncertain''"
  by code_simp

text \<open>
  Claim C5, amended. For a domain that is a non-empty string: if it has no dot or has a
  space character, the verdict is \<open>Invalid\<close> and no probe is made. Otherwise, when the
  probe answers with a status below 400: a company that is a non-empty string whose
  alphanumeric lower-case form (the characters that \<open>str.isalnum\<close> keeps, each lowered
  by \<open>str.lower\<close>) occurs in that of the domain gives \<open>Valid\<close>; no company
  (\<open>None\<close>, a missing cell, the empty string) gives \<open>Valid\<close>; a company string whose form
  does not occur gives \<open>Uncertain\<close>. When the probe raises or answers 400 or more, the
  verdict is \<open>Uncertain\<close>.
\<close>

theorem company_domain_verdict:
  assumes "d \<noteq> []"
  shows "(CHR ''.'' \<notin> set d \<or> CHR '' '' \<in> set d
            \<longrightarrow> verify_company_domain env st (Str d) company = (Invalid, st))
       \<and> (CHR ''.'' \<in> set d \<and> CHR '' '' \<notin> set d
            \<longrightarrow> (\<forall>code c. http_head env (trace st) (''https://'' @ d) = Some code \<and> code < 400
                   \<longrightarrow> (company = Str c \<and> c \<noteq> [] \<and> py_in (simple env c) (simple env d)
                          \<longrightarrow> fst (verify_company_domain env st (Str d) company) = Valid)
                     \<and> (company = PNone \<or> company = NaN \<or> company = Str []
                          \<longrightarrow> fst (verify_company_domain env st (Str d) company) = Valid)
                     \<and> (company = Str c \<and> c \<noteq> [] \<and> \<not> py_in (simple env c) (simple env d)
                          \<longrightarrow> fst (verify_company_domain env st (Str d) company) = Uncertain))
              \<and> (http_head env (trace st) (''https://'' @ d) = None
                    \<or> (\<exists>code. http_head env (trace st) (''https://'' @ d) = Some code \<and> 400 \<le> code)
                   \<longrightarrow> fst (verify_company_domain env st (Str d) company) = Uncertain))"
  using assms
  by (auto simp: verify_company_domain_def Let_def py_in_char present_def)

theorem company_domain_verdict_witness:
  "verify_company_domain reachable_env init_session (Str ''acme corp.com'') (Str ''Acme Corp'')
     = (Invalid, init_session)
   \<and> fst (verify_company_domain reachable_env init_session (Str ''acmecorp.com'') (Str ''Acme Corp''))
     = Valid
   \<and> fst (verify_company_domain reachable_env init_session (Str ''acmecorp.com'') (Str ''Widgets Inc''))
     = Uncertain
   \<and> fst (verify_company_domain reachable_env init_session (Str ''acmecorp.com'') PNone) = Valid
   \<and> fst (verify_company_domain silent_env init_session (Str ''acmecorp.com'') (Str ''Acme Corp''))
     = Uncertain"
proof -
  have sp: "CHR ''.'' \<notin> set ''acme corp.com'' \<or> CHR '' '' \<in> set ''acme corp.com''" by simp
  have ok: "CHR ''.'' \<in> set ''acmecorp.com'' \<and> CHR '' '' \<notin> set ''acmecorp.com''" by simp
  have up: "http_head reachable_env (trace init_session) (''https://'' @ ''acmecorp.com'') = Some 200
            \<and> (200::int) < 400"
    by (simp add: reachable_env_def silent_env_def)
  have down: "http_head silent_env (trace init_session) (''https://'' @ ''acmecorp.com'') = None
     \<or> (\<exists>code. http_head silent_env (trace init_session) (''https://'' @ ''acmecorp.com'')
            = Some code \<and> 400 \<le> code)"
    by (simp add: silent_env_def)
  have m: "py_in (simple reachable_env ''Acme Corp'') (simple reachable_env ''acmecorp.com'')" by code_simp
  have n: "\<not> py_in (simple reachable_env ''Widgets Inc'') (simple reachable_env ''acmecorp.com'')" by code_simp
  have a: "verify_company_domain reachable_env init_session (Str ''acme corp.com'') (Str ''Acme Corp'')
     = (Invalid, init_session)"
    using company_domain_verdict [of "''acme corp.com''" reachable_env init_session "Str ''Acme Corp''",
        THEN conjunct1, THEN mp, OF _ sp]
    by simp
  note r = company_domain_verdict [of "''acmecorp.com''" reachable_env init_session,
        THEN conjunct2, THEN mp, OF _ ok, THEN conjunct1, THEN spec, THEN spec, THEN mp, OF _ up]
  have b: "fst (verify_company_domain reachable_env init_session (Str ''acmecorp.com'') (Str ''Acme Corp''))
     = Valid"
    using r [of "Str ''Acme Corp''" "''Acme Corp''"] m by simp
  have c: "fst (verify_company_domain reachable_env init_session (Str ''acmecorp.com'') (Str ''Widgets Inc''))
     = Uncertain"
    using r [of "Str ''Widgets Inc''" "''Widgets Inc''"] n by simp
  have d: "fst (verify_company_domain reachable_env init_session (Str ''acmecorp.com'') PNone) = Valid"
    using r [of PNone "[]"] by simp
  have e: "fst (verify_company_domain silent_env init_session (Str ''acmecorp.com'') (Str ''Acme Corp''))
     = Uncertain"
    using company_domain_verdict [of "''acmecorp.com''" silent_env init_session "Str ''Acme Corp''",
        THEN conjunct2, THEN mp, OF _ ok, THEN conjunct2, THEN mp, OF _ down]
    by simp
  from a b c d e show ?thesis by simp
qed









section \<open>Steps of a session\<close>

lemma web_step_refl [simp]: "web_step st st"
  by (simp add: web_step_def)

lemma web_step_trans: "web_step a b \<Longrightarrow> web_step b c \<Longrightarrow> web_step a c"
  by (auto simp: web_step_def intro: map_le_trans)

lemma web_step_log [simp]: "web_step st (log_call c st)"
  by (simp add: web_step_def log_call_def)

lemma web_step_session: "web_step st st' \<Longrightarrow> session_step env st st'"
  by (simp add: web_step_def session_step_def email_caches_sound_def)

lemma session_step_refl [simp]: "session_step env st st"
  by (simp add: session_step_def)

lemma session_step_trans: "session_step env a b \<Longrightarrow> session_step env b c \<Longrightarrow> session_step env a c"
  by (auto simp: session_step_def intro: map_le_trans)

lemma markup_step: "markup_text env st url = (r, st') \<Longrightarrow> web_step st st'"
  by (auto simp: markup_text_def split: option.splits)

lemma scrape_step: "scrape_company_website env st d = (r, st') \<Longrightarrow> web_step st st'"
  by (auto simp: scrape_company_website_def Let_def
      dest!: markup_step intro: web_step_trans [OF web_step_log]
      split: fetch_outcome.splits option.splits extract_outcome.splits if_splits)

lemma serp_step: "search_using_serpapi env st c k = (r, st') \<Longrightarrow> web_step st st'"
  by (auto simp: search_using_serpapi_def Let_def
      split: pyval.splits serp_outcome.splits option.splits)

lemma ddg_step: "search_using_duckduckgo env st c = (r, st') \<Longrightarrow> web_step st st'"
  by (auto simp: search_using_duckduckgo_def Let_def split: option.splits)

lemma search_step: "search_for_company env st c = (r, st') \<Longrightarrow> web_step st st'"
  by (auto simp: search_for_company_def dest: serp_step ddg_step split: option.splits if_splits)

lemma site_step: "site_strategy env st c d = (r, st') \<Longrightarrow> web_step st st'"
  by (auto simp: site_strategy_def dest: scrape_step split: pyval.splits prod.splits if_splits)

lemma web_step_store:
  assumes "web_step st st2" and "web_cache st k = None"
  shows "web_step st (st2\<lparr>web_cache := (web_cache st2)(k \<mapsto> v)\<rparr>)"
  using assms by (auto simp: web_step_def map_le_def dom_def)

lemma gather_step:
  assumes "get_company_info_from_web env st c d = (r, st')"
  shows "web_step st st'"
proof (cases "truthy c \<and> web_cache st (web_cache_key c d) = None")
  case False
  with assms show ?thesis
    by (auto simp: get_company_info_from_web_def split: option.splits if_splits)
next
  case True
  obtain s st1 where s: "site_strategy env st c d = (s, st1)" by (cases "site_strategy env st c d")
  obtain t st2 where t: "search_for_company env st1 c = (t, st2)"
    by (cases "search_for_company env st1 c")
  have w: "web_step st st2" using site_step [OF s] search_step [OF t] by (rule web_step_trans)
  show ?thesis
  proof (cases s)
    case (Inl e)
    with assms True s show ?thesis
      using site_step [OF s] by (simp add: get_company_info_from_web_def)
  next
    case (Inr info)
    with assms True s t have "st' = st2\<lparr>web_cache := (web_cache st2)(web_cache_key c d \<mapsto>
        info @ (if t \<noteq> [] then t else []))\<rparr>"
      by (auto simp: get_company_info_from_web_def Let_def)
    with web_step_store [OF w] True show ?thesis by simp
  qed
qed

lemma classify_step: "verify_contact_with_ai env st f v r d = (res, st') \<Longrightarrow> web_step st st'"
  by (auto simp: verify_contact_with_ai_def Let_def web_step_def log_call_def record_ai_error_def
      split: if_splits option.splits ai_outcome.splits)

lemma check_step: "web_step st (snd (check_api_status env st))"
  by (auto simp: check_api_status_def web_step_def log_call_def record_ai_error_def
      split: ai_outcome.splits)

lemma name_step:
  "verify_name_against_company env st a b c d = (res, st') \<Longrightarrow> web_step st st'"
  by (auto simp: verify_name_against_company_def Let_def dest!: gather_step
      split: prod.splits sum.splits if_splits)

lemma exists_step: "verify_company_exists env st c d = (res, st') \<Longrightarrow> web_step st st'"
  by (auto simp: verify_company_exists_def dest!: gather_step
      split: prod.splits sum.splits if_splits)

lemma domain_step: "verify_company_domain env st d c = (res, st') \<Longrightarrow> web_step st st'"
  by (auto simp: verify_company_domain_def Let_def split: pyval.splits option.splits if_splits)

lemma address_step:
  assumes "verify_address_component env st t v c r u d = (res, st')"
  shows "web_step st st'"
proof (cases "present c")
  case False
  with assms show ?thesis by (simp add: verify_address_component_def)
next
  case True
  obtain g st1 where g: "get_company_info_from_web env st c PNone = (g, st1)"
    by (cases "get_company_info_from_web env st c PNone")
  note w = gather_step [OF g]
  show ?thesis
  proof (cases g)
    case (Inl e)
    with assms True g w show ?thesis by (simp add: verify_address_component_def)
  next
    case (Inr info)
    with assms True g w show ?thesis
      by (auto simp add: verify_address_component_def Let_def simp del: list.set
          dest!: classify_step intro: web_step_trans split: if_splits option.splits)
  qed
qed

lemma industry_step:
  assumes "verify_industry env st i c u d = (res, st')"
  shows "web_step st st'"
proof (cases "present c")
  case False
  with assms show ?thesis by (simp add: verify_industry_def)
next
  case True
  obtain g st1 where g: "get_company_info_from_web env st c PNone = (g, st1)"
    by (cases "get_company_info_from_web env st c PNone")
  note w = gather_step [OF g]
  show ?thesis using assms True g w
    by (cases g)
      (auto simp add: verify_industry_def dest!: classify_step intro: web_step_trans
        split: if_splits)
qed

lemma mx_sound:
  assumes "verify_domain_mx env st d = (b, st1)" and "email_caches_sound env st"
  shows "email_caches_sound env st1 \<and> (b \<longrightarrow> ever_resolves env d) \<and> (\<not> b \<longrightarrow> may_fail env d)
       \<and> validation_cache st1 = validation_cache st \<and> web_cache st1 = web_cache st"
proof (cases "dns_cache st d")
  case (Some cached)
  with assms show ?thesis
    by (auto simp: verify_domain_mx_def email_caches_sound_def)
next
  case None
  show ?thesis
  proof (cases "dns_resolve env (trace st) d ''MX''")
    case True
    then have "ever_resolves env d" unfolding ever_resolves_def by blast
    with assms None True show ?thesis
      by (auto simp: verify_domain_mx_def Let_def email_caches_sound_def log_call_def
            split: if_splits)
  next
    case False
    note mx = this
    show ?thesis
    proof (cases "dns_resolve env (trace (log_call (DnsResolve d ''MX'') st)) d ''A''")
      case True
      then have "ever_resolves env d" unfolding ever_resolves_def by blast
      with assms None mx True show ?thesis
        by (auto simp: verify_domain_mx_def Let_def email_caches_sound_def log_call_def
            split: if_splits)
    next
      case False
      with mx have "may_fail env d" unfolding may_fail_def by blast
      with assms None mx False show ?thesis
        by (auto simp: verify_domain_mx_def Let_def email_caches_sound_def log_call_def
            split: if_splits)
    qed
  qed
qed

lemma remember_sound:
  assumes "remember e s st = (r, st')" and "email_caches_sound env st" and "verdict_sound env e s"
  shows "email_caches_sound env st' \<and> web_cache st' = web_cache st \<and> r = s"
  using assms by (auto simp: remember_def email_caches_sound_def split: if_splits)

lemma sound_log: "email_caches_sound env (log_call c st) = email_caches_sound env st"
  by (simp add: email_caches_sound_def log_call_def)

lemma deliverability_sound:
  assumes "deliverability_check env st k e = (r, st')" and "email_caches_sound env st"
    and "is_valid_email_syntax e" and "ever_resolves env (email_domain (py_str e))"
    and "\<not> is_disposable_domain (email_domain (py_str e))"
  shows "email_caches_sound env st' \<and> web_cache st' = web_cache st"
proof -
  have v: "verdict_sound env e s" for s using assms(3-5) by (simp add: verdict_sound_def)
  have l: "email_caches_sound env (log_call c st)" for c using assms(2) by (simp add: sound_log)
  have w: "web_cache (log_call c st) = web_cache st" for c by (simp add: log_call_def)
  from assms(1) show ?thesis
    by (auto simp: deliverability_check_def Let_def w
        dest!: remember_sound [OF _ l v] split: abstract_outcome.splits if_splits)
qed

lemma validate_sound:
  assumes "validate_email env st e = (r, st')" and "email_caches_sound env st"
  shows "email_caches_sound env st' \<and> web_cache st' = web_cache st"
proof (cases "validation_cache st e")
  case (Some cached)
  with assms show ?thesis by (simp add: validate_email_def)
next
  case None
  show ?thesis
  proof (cases "is_valid_email_syntax e")
    case False
    then have "verdict_sound env e ''Invalid''" by (simp add: verdict_sound_def)
    from remember_sound [OF _ assms(2) this] assms(1) None False show ?thesis
      by (simp add: validate_email_def)
  next
    case True
    obtain b st1 where m: "verify_domain_mx env st (email_domain (py_str e)) = (b, st1)"
      by (cases "verify_domain_mx env st (email_domain (py_str e))")
    note s = mx_sound [OF m assms(2)]
    show ?thesis
    proof (cases b)
      case False
      with s True have "verdict_sound env e ''Uncertain''" by (simp add: verdict_sound_def)
      from remember_sound [OF _ _ this, of st1 r st'] s assms(1) None True m False show ?thesis
        by (simp add: validate_email_def)
    next
      case True
      note b = this
      show ?thesis
      proof (cases "is_disposable_domain (email_domain (py_str e))")
        case True
        with s b \<open>is_valid_email_syntax e\<close> have "verdict_sound env e ''Invalid''"
          by (simp add: verdict_sound_def)
        from remember_sound [OF _ _ this, of st1 r st'] s assms(1) None
          \<open>is_valid_email_syntax e\<close> m b True
        show ?thesis by (simp add: validate_email_def)
      next
        case False
        with s b \<open>is_valid_email_syntax e\<close> have v: "verdict_sound env e ''Valid''"
          by (simp add: verdict_sound_def)
        have d: "deliverability_check env st1 k e = (r, st')
                 \<Longrightarrow> email_caches_sound env st' \<and> web_cache st' = web_cache st1" for k
          using deliverability_sound [of env st1 k e r st'] s b \<open>is_valid_email_syntax e\<close> False
          by simp
        from remember_sound [OF _ _ v, of st1 r st'] d s assms(1) None
          \<open>is_valid_email_syntax e\<close> m b False
        show ?thesis by (auto simp: validate_email_def split: option.splits if_splits)
      qed
    qed
  qed
qed

lemma mx_web: "verify_domain_mx env st d = (r, st') \<Longrightarrow> web_cache st' = web_cache st"
  by (auto simp: verify_domain_mx_def Let_def log_call_def split: option.splits if_splits)

lemma remember_web: "remember e s st = (r, st') \<Longrightarrow> web_cache st' = web_cache st"
  by (auto simp: remember_def)

lemma deliverability_web:
  "deliverability_check env st k e = (r, st') \<Longrightarrow> web_cache st' = web_cache st"
  by (auto simp: deliverability_check_def Let_def log_call_def dest!: remember_web
      split: abstract_outcome.splits if_splits)

lemma validate_web: "validate_email env st e = (r, st') \<Longrightarrow> web_cache st' = web_cache st"
  by (auto simp: validate_email_def Let_def dest!: remember_web mx_web deliverability_web
      split: option.splits if_splits prod.splits)

lemma validate_step: "validate_email env st e = (r, st') \<Longrightarrow> session_step env st st'"
  using validate_sound [of env st e r st'] validate_web [of env st e r st']
  by (auto simp: session_step_def)

lemma dispatch_step:
  assumes "dispatch env st row col v u d = (res, st')"
  shows "session_step env st st'"
  using assms
  by (auto simp add: dispatch_def Let_def simp del: list.set
      dest!: validate_step name_step exists_step domain_step address_step industry_step
        classify_step
      intro: web_step_session
      split: prod.splits sum.splits if_splits)

lemma column_step:
  "verify_column env st row col u d = (res, st') \<Longrightarrow> session_step env st st'"
  by (auto simp: verify_column_def dest: dispatch_step split: prod.splits sum.splits if_splits)

lemma columns_step:
  "verify_columns env row u d cols vrow st = (res, st') \<Longrightarrow> session_step env st st'"
proof (induction cols arbitrary: vrow st)
  case Nil
  then show ?case by simp
next
  case (Cons col cols)
  obtain r st1 where c: "verify_column env st row col u d = (r, st1)"
    by (cases "verify_column env st row col u d")
  note s = column_step [OF c]
  show ?case
  proof (cases r)
    case (Inl e)
    with Cons.prems c s show ?thesis by simp
  next
    case (Inr status)
    with Cons.prems c have
      "verify_columns env row u d cols (AList.update (col @ ''_status'') status vrow) st1 = (res, st')"
      by simp
    from session_step_trans [OF s Cons.IH [OF this]] show ?thesis .
  qed
qed

lemma perform_step: "session_step env st (perform env st a)"
proof (cases a)
  case (Classify f v r d)
  then show ?thesis
    using classify_step [of env st f v r d, THEN web_step_session, of _ _ env]
    by (cases "verify_contact_with_ai env st f v r d") simp
next
  case CheckApiStatus
  then show ?thesis using check_step [of st env, THEN web_step_session, of env] by simp
next
  case (VerifyData row cols u d)
  then show ?thesis
    using columns_step [of env row u d cols row st]
    by (cases "verify_columns env row u d cols row st") (simp add: verify_data_def)
next
  case (ValidateEmail e)
  then show ?thesis
    using validate_step [of env st e] by (cases "validate_email env st e") simp
next
  case (GetCompanyInfo c d)
  then show ?thesis
    using gather_step [of env st c d, THEN web_step_session, of _ _ env]
    by (cases "get_company_info_from_web env st c d") simp
qed

lemma run_step: "session_step env st (run env st acts)"
proof (induction acts arbitrary: st)
  case Nil
  then show ?case by simp
next
  case (Cons a acts)
  from session_step_trans [OF perform_step Cons.IH] show ?case by simp
qed



section \<open>The syntax check\<close>

text \<open>
  The executable matcher agrees with the reading of the pattern: a non-empty local
  part, the at sign, a non-empty host of letters, digits, dots and hyphens, a dot, and
  a last label of two or more letters.
\<close>

lemma local_char_not_at: "local_char c \<Longrightarrow> c \<noteq> CHR ''@''"
  by (auto simp: local_char_def isalnum_def is_alpha_def is_digit_def)

lemma is_alpha_not_dot: "is_alpha c \<Longrightarrow> c \<noteq> CHR ''.''"
  by (auto simp: is_alpha_def)

lemma takeWhile_stop:
  "(\<forall>x \<in> set xs. P x) \<Longrightarrow> \<not> P y \<Longrightarrow> takeWhile P (xs @ y # ys) = xs"
  by (induction xs) auto

lemma dropWhile_head: "dropWhile P xs = y # ys \<Longrightarrow> \<not> P y"
  using hd_dropWhile [of P xs] by auto

lemma email_pattern_matches:
  assumes "l \<noteq> []" "list_all local_char l" "d \<noteq> []" "list_all domain_char d"
    "2 \<le> length t" "list_all is_alpha t"
  shows "email_pattern (l @ CHR ''@'' # d @ CHR ''.'' # t)"
proof -
  have tl: "takeWhile (\<lambda>c. c \<noteq> CHR ''@'') (l @ CHR ''@'' # d @ CHR ''.'' # t) = l"
    using assms(2) takeWhile_stop [of l "\<lambda>c. c \<noteq> CHR ''@''" "CHR ''@''" "d @ CHR ''.'' # t"]
    by (auto simp: list_all_iff local_char_not_at)
  have tt: "takeWhile (\<lambda>c. c \<noteq> CHR ''.'') (rev t @ CHR ''.'' # rev d) = rev t"
    using assms(6) takeWhile_stop [of "rev t" "\<lambda>c. c \<noteq> CHR ''.''" "CHR ''.''" "rev d"]
    by (auto simp: list_all_iff is_alpha_not_dot)
  show ?thesis
    unfolding email_pattern_def tl Let_def using assms by (simp add: tt)
qed

lemma email_pattern_shape:
  assumes "email_pattern s"
  shows "\<exists>l d t. s = l @ CHR ''@'' # d @ CHR ''.'' # t \<and> l \<noteq> [] \<and> list_all local_char l
           \<and> d \<noteq> [] \<and> list_all domain_char d \<and> 2 \<le> length t \<and> list_all is_alpha t"
proof -
  define l where "l = takeWhile (\<lambda>c. c \<noteq> CHR ''@'') s"
  define rest where "rest = dropWhile (\<lambda>c. c \<noteq> CHR ''@'') s"
  have rest_drop: "drop (length l) s = rest" by (simp add: rest_def l_def dropWhile_eq_drop)
  have s: "s = l @ rest" unfolding rest_def l_def by simp
  from assms have e: "l \<noteq> [] \<and> list_all local_char l \<and>
         (case rest of
            [] \<Rightarrow> False
          | at # after \<Rightarrow>
              (let tld = rev (takeWhile (\<lambda>c. c \<noteq> CHR ''.'') (rev after));
                   host = take (length after - length tld - 1) after
               in length tld < length after \<and> host \<noteq> [] \<and> list_all domain_char host \<and>
                  2 \<le> length tld \<and> list_all is_alpha tld))"
    unfolding email_pattern_def l_def [symmetric] Let_def rest_drop .
  then obtain at after where r: "rest = at # after" by (cases rest) auto
  have at: "at = CHR ''@''"
    using dropWhile_head [of "\<lambda>c. c \<noteq> CHR ''@''" s at after] r rest_def by auto
  define tw where "tw = takeWhile (\<lambda>c. c \<noteq> CHR ''.'') (rev after)"
  define w where "w = dropWhile (\<lambda>c. c \<noteq> CHR ''.'') (rev after)"
  from e r have p: "length tw < length after"
    "take (length after - length tw - 1) after \<noteq> []"
    "list_all domain_char (take (length after - length tw - 1) after)"
    "2 \<le> length tw" "list_all is_alpha tw"
    by (simp_all add: Let_def tw_def)
  have ra: "rev after = tw @ w" by (simp add: tw_def w_def)
  have "length (rev after) = length tw + length w" unfolding ra by simp
  with p(1) have "w \<noteq> []" by auto
  then obtain x w' where w: "w = x # w'" by (cases w) auto
  have x: "x = CHR ''.''"
    using dropWhile_head [of "\<lambda>c. c \<noteq> CHR ''.''" "rev after" x w'] w w_def by auto
  have "rev (rev after) = rev (tw @ w)" using ra by simp
  then have a: "after = rev w' @ CHR ''.'' # rev tw" using w x by simp
  have d: "take (length after - length tw - 1) after = rev w'" unfolding a by simp
  have "s = l @ CHR ''@'' # rev w' @ CHR ''.'' # rev tw" using s r at a by simp
  moreover have "l \<noteq> [] \<and> list_all local_char l" using e by simp
  moreover have "rev w' \<noteq> []" using p(2) unfolding d .
  moreover have "list_all domain_char (rev w')" using p(3) unfolding d .
  moreover have "2 \<le> length (rev tw) \<and> list_all is_alpha (rev tw)"
    using p(4,5) by (simp add: list_all_iff)
  ultimately show ?thesis by blast
qed

lemma email_pattern_iff:
  "email_pattern s \<longleftrightarrow>
     (\<exists>l d t. s = l @ CHR ''@'' # d @ CHR ''.'' # t \<and> l \<noteq> [] \<and> list_all local_char l
           \<and> d \<noteq> [] \<and> list_all domain_char d \<and> 2 \<le> length t \<and> list_all is_alpha t)"
  using email_pattern_shape [of s] email_pattern_matches by blast

section \<open>Memoization of the gatherer and order of the email checks\<close>

lemma gather_repeatable:
  assumes "get_company_info_from_web env st company domain = (Inr text, st1)"
  shows "get_company_info_from_web env (run env st1 acts) company domain
           = (Inr text, run env st1 acts)"
proof (cases "truthy company")
  case False
  with assms show ?thesis by (simp add: get_company_info_from_web_def)
next
  case True
  have "web_cache st1 (web_cache_key company domain) = Some text"
    using gather_returns_cached [OF assms True] .
  moreover have "web_cache st1 \<subseteq>\<^sub>m web_cache (run env st1 acts)"
    using run_step [of env st1 acts] by (simp add: session_step_def)
  ultimately have "web_cache (run env st1 acts) (web_cache_key company domain) = Some text"
    by (auto simp: map_le_def dom_def)
  with True show ?thesis by (simp add: gather_cached)
qed

text \<open>
  Claim C9. For a company name that is a string and a domain that is \<open>None\<close> or a
  string, the gatherer returns a text; called again with the same pair, at once or
  after any further actions of the session, it returns the same text and leaves the
  session state, the trace of external calls included, as it was.
\<close>

theorem gather_memoized:
  assumes "domain = PNone \<or> (\<exists>d. domain = Str d)"
  shows "\<exists>text st1.
           get_company_info_from_web env st (Str c) domain = (Inr text, st1)
         \<and> get_company_info_from_web env st1 (Str c) domain = (Inr text, st1)
         \<and> (\<forall>acts. get_company_info_from_web env (run env st1 acts) (Str c) domain
                     = (Inr text, run env st1 acts))"
proof -
  obtain info st1 where g: "get_company_info_from_web env st (Str c) domain = (Inr info, st1)"
    using gather_strings_total [OF assms] by blast
  from gather_repeatable [OF g] gather_repeatable [OF g, of "[]"] g show ?thesis by auto
qed

theorem gather_memoized_witness:
  "fst (get_company_info_from_web fallback_env init_session (Str ''Acme'') PNone)
     = Inr ''Acme Corp - Home\<newline>Anvils and rockets since 1949\<newline>\<newline>''
   \<and> get_company_info_from_web fallback_env
         (snd (get_company_info_from_web fallback_env init_session (Str ''Acme'') PNone))
         (Str ''Acme'') PNone
     = (Inr ''Acme Corp - Home\<newline>Anvils and rockets since 1949\<newline>\<newline>'',
        snd (get_company_info_from_web fallback_env init_session (Str ''Acme'') PNone))"
proof -
  have f: "fst (get_company_info_from_web fallback_env init_session (Str ''Acme'') PNone)
     = Inr ''Acme Corp - Home\<newline>Anvils and rockets since 1949\<newline>\<newline>''"
    by code_simp
  have d: "PNone = PNone \<or> (\<exists>d. PNone = Str d)" by simp
  from gather_memoized [OF d, of fallback_env init_session "''Acme''"]
  obtain info st1 where
    a: "get_company_info_from_web fallback_env init_session (Str ''Acme'') PNone = (Inr info, st1)"
    and b: "get_company_info_from_web fallback_env st1 (Str ''Acme'') PNone = (Inr info, st1)"
    by blast
  from a f have "info = ''Acme Corp - Home\<newline>Anvils and rockets since 1949\<newline>\<newline>''" by simp
  with a b f show ?thesis by simp
qed



end
